theory Spec2Isabelle
  imports Main "HOL-Library.Signed_Division"
begin

section \<open>The 2D engine (the raylib 8x8 chess program)\<close>

subsection \<open>Data model\<close>

text \<open>The enums and structs of the 8x8 program. Coordinates, clocks and counters are C
  \<open>int\<close>s; they are modelled as unbounded integers (no arithmetic on them comes near the
  range of a machine integer in any function below except the two counters, whose
  increments are written as they are in the source). The array \<open>squares[8][8]\<close> is a
  store from index pairs to squares; every read and write of the source is at an index
  pair that the source has checked with \<open>is_valid_position\<close> or that comes from a move.\<close>

datatype Piece = EMPTY | PAWN | KNIGHT | BISHOP | ROOK | QUEEN | KING

datatype PlayerColor = PLAYER_WHITE | PLAYER_BLACK | NONE

record Square =
  piece :: Piece
  color :: PlayerColor

text \<open>\<open>struct PreviousState\<close>; the field names carry the prefix \<open>ps_\<close> because the board
  has fields of the same names.\<close>

record PreviousState =
  captured_piece :: Piece
  captured_color :: PlayerColor
  ps_white_castle_kingside :: bool
  ps_white_castle_queenside :: bool
  ps_black_castle_kingside :: bool
  ps_black_castle_queenside :: bool
  ps_en_passant_row :: int
  ps_en_passant_col :: int
  ps_halfmove_clock :: int

record Move =
  from_row :: int
  from_col :: int
  to_row :: int
  to_col :: int
  promotion :: Piece
  score :: int
  previous_state :: PreviousState

record Board =
  squares :: "int \<times> int \<Rightarrow> Square"
  current_player :: PlayerColor
  white_castle_kingside :: bool
  white_castle_queenside :: bool
  black_castle_kingside :: bool
  black_castle_queenside :: bool
  en_passant_row :: int
  en_passant_col :: int
  halfmove_clock :: int
  fullmove_number :: int

definition BOARD_SIZE :: int where
  "BOARD_SIZE = 8"

definition INFINITY :: int where
  "INFINITY = 1000000"

definition MATE_SCORE :: int where
  "MATE_SCORE = INFINITY - 100"

definition empty_square :: Square where
  "empty_square = \<lparr>piece = EMPTY, color = NONE\<rparr>"

text \<open>Writing both fields of one square, as the pairs of assignments
  \<open>squares[r][c].piece = p; squares[r][c].color = k\<close> of the source do.\<close>

definition set_square :: "Board \<Rightarrow> int \<Rightarrow> int \<Rightarrow> Square \<Rightarrow> Board" where
  "set_square board r c s = board\<lparr>squares := (squares board)((r, c) := s)\<rparr>"

definition back_row :: "int \<Rightarrow> Piece" where
  "back_row c = (if c = 0 \<or> c = 7 then ROOK else if c = 1 \<or> c = 6 then KNIGHT
     else if c = 2 \<or> c = 5 then BISHOP else if c = 3 then QUEEN else KING)"

text \<open>\<open>init_board\<close> writes all 64 squares and every other field, so its result does not
  depend on the board it is given; outside the 8x8 range the store holds empty squares.\<close>

definition init_board :: Board where
  "init_board =
    \<lparr>squares = (\<lambda>(r, c).
        if 0 \<le> c \<and> c < BOARD_SIZE then
          (if r = 1 then \<lparr>piece = PAWN, color = PLAYER_BLACK\<rparr>
           else if r = 6 then \<lparr>piece = PAWN, color = PLAYER_WHITE\<rparr>
           else if r = 0 then \<lparr>piece = back_row c, color = PLAYER_BLACK\<rparr>
           else if r = 7 then \<lparr>piece = back_row c, color = PLAYER_WHITE\<rparr>
           else empty_square)
        else empty_square),
     current_player = PLAYER_WHITE,
     white_castle_kingside = True,
     white_castle_queenside = True,
     black_castle_kingside = True,
     black_castle_queenside = True,
     en_passant_row = -1,
     en_passant_col = -1,
     halfmove_clock = 0,
     fullmove_number = 1\<rparr>"

definition is_valid_position :: "int \<Rightarrow> int \<Rightarrow> bool" where
  "is_valid_position row col \<longleftrightarrow> row \<ge> 0 \<and> row < BOARD_SIZE \<and> col \<ge> 0 \<and> col < BOARD_SIZE"

subsection \<open>Move generation\<close>

text \<open>A generator appends to \<open>moves[]\<close> and advances \<open>*move_count\<close>; the model returns
  the appended moves in order. The generator writes the coordinates, the promotion and
  the two capture fields of a move; the score and the other seven fields of
  \<open>previous_state\<close> are left as they were in the caller's array (indeterminate in C) and
  are written by \<open>make_move\<close> before anything reads them. The model fills them with the
  fixed values of \<open>unset_state\<close>.\<close>

definition unset_state :: PreviousState where
  "unset_state = \<lparr>captured_piece = EMPTY, captured_color = NONE,
     ps_white_castle_kingside = False, ps_white_castle_queenside = False,
     ps_black_castle_kingside = False, ps_black_castle_queenside = False,
     ps_en_passant_row = 0, ps_en_passant_col = 0, ps_halfmove_clock = 0\<rparr>"

definition new_move :: "int \<Rightarrow> int \<Rightarrow> int \<Rightarrow> int \<Rightarrow> Piece \<Rightarrow> Piece \<Rightarrow> PlayerColor \<Rightarrow> Move" where
  "new_move fr fc tr tc promo cp cc =
    \<lparr>from_row = fr, from_col = fc, to_row = tr, to_col = tc, promotion = promo, score = 0,
     previous_state = unset_state\<lparr>captured_piece := cp, captured_color := cc\<rparr>\<rparr>"

definition promo_pieces :: "Piece list" where
  "promo_pieces = [QUEEN, ROOK, BISHOP, KNIGHT]"

text \<open>\<open>generate_pawn_moves\<close> has three blocks: the forward moves, and the body of the
  capture loop for \<open>col_offset = -1\<close> and for \<open>col_offset = 1\<close>. Each block is one
  definition here; the locals of the source are recomputed in each.\<close>

definition pawn_direction :: "Board \<Rightarrow> int \<Rightarrow> int \<Rightarrow> int" where
  "pawn_direction board row col =
     (if color (squares board (row, col)) = PLAYER_WHITE then -1 else 1)"

definition pawn_start_row :: "Board \<Rightarrow> int \<Rightarrow> int \<Rightarrow> int" where
  "pawn_start_row board row col =
     (if color (squares board (row, col)) = PLAYER_WHITE then 6 else 1)"

definition pawn_opponent_color :: "Board \<Rightarrow> int \<Rightarrow> int \<Rightarrow> PlayerColor" where
  "pawn_opponent_color board row col =
     (if color (squares board (row, col)) = PLAYER_WHITE then PLAYER_BLACK else PLAYER_WHITE)"

definition pawn_promotion_rank :: "Board \<Rightarrow> int \<Rightarrow> int \<Rightarrow> int" where
  "pawn_promotion_rank board row col =
     (if color (squares board (row, col)) = PLAYER_WHITE then 0 else 7)"

definition pawn_forward_moves :: "Board \<Rightarrow> int \<Rightarrow> int \<Rightarrow> Move list" where
  "pawn_forward_moves board row col =
    (let direction = pawn_direction board row col;
         start_row = pawn_start_row board row col;
         promotion_rank = pawn_promotion_rank board row col;
         next_row = row + direction
     in if is_valid_position next_row col \<and> piece (squares board (next_row, col)) = EMPTY then
          (if next_row = promotion_rank
           then map (\<lambda>p. new_move row col next_row col p EMPTY NONE) promo_pieces
           else [new_move row col next_row col EMPTY EMPTY NONE])
          @ (if row = start_row \<and> is_valid_position (row + 2 * direction) col
                \<and> piece (squares board (row + 2 * direction, col)) = EMPTY
             then [new_move row col (row + 2 * direction) col EMPTY EMPTY NONE] else [])
        else [])"

definition pawn_capture_moves :: "Board \<Rightarrow> int \<Rightarrow> int \<Rightarrow> int \<Rightarrow> Move list" where
  "pawn_capture_moves board row col col_offset =
    (let opponent_color = pawn_opponent_color board row col;
         promotion_rank = pawn_promotion_rank board row col;
         next_row = row + pawn_direction board row col;
         capture_col = col + col_offset
     in if is_valid_position next_row capture_col then
          (if piece (squares board (next_row, capture_col)) \<noteq> EMPTY
              \<and> color (squares board (next_row, capture_col)) = opponent_color then
             (if next_row = promotion_rank
              then map (\<lambda>p. new_move row col next_row capture_col p
                          (piece (squares board (next_row, capture_col)))
                          (color (squares board (next_row, capture_col)))) promo_pieces
              else [new_move row col next_row capture_col EMPTY
                          (piece (squares board (next_row, capture_col)))
                          (color (squares board (next_row, capture_col)))])
           else if next_row = en_passant_row board \<and> capture_col = en_passant_col board
              \<and> piece (squares board (next_row, capture_col)) = EMPTY
           then [new_move row col next_row capture_col EMPTY PAWN opponent_color]
           else [])
        else [])"

definition generate_pawn_moves :: "Board \<Rightarrow> int \<Rightarrow> int \<Rightarrow> Move list" where
  "generate_pawn_moves board row col =
     pawn_forward_moves board row col
     @ pawn_capture_moves board row col (-1) @ pawn_capture_moves board row col 1"

definition knight_moves :: "(int \<times> int) list" where
  "knight_moves = [(2, 1), (2, -1), (-2, 1), (-2, -1), (1, 2), (1, -2), (-1, 2), (-1, -2)]"

text \<open>The body shared, word for word, by the knight's loop and the king's loop: one
  step to a valid square that does not hold a piece of the mover's colour.\<close>

definition step_move :: "Board \<Rightarrow> int \<Rightarrow> int \<Rightarrow> int \<times> int \<Rightarrow> Move list" where
  "step_move board row col d =
    (let current_color = color (squares board (row, col));
         new_row = row + fst d;
         new_col = col + snd d
     in if is_valid_position new_row new_col
           \<and> color (squares board (new_row, new_col)) \<noteq> current_color
        then [new_move row col new_row new_col EMPTY
                (piece (squares board (new_row, new_col)))
                (color (squares board (new_row, new_col)))]
        else [])"

definition generate_knight_moves :: "Board \<Rightarrow> int \<Rightarrow> int \<Rightarrow> Move list" where
  "generate_knight_moves board row col = concat (map (step_move board row col) knight_moves)"

text \<open>The \<open>while\<close> loop of \<open>generate_directional_moves\<close>, from the square
  \<open>(new_row, new_col)\<close> on. The source is only ever called with one of the eight unit
  directions; with the direction \<open>(0, 0)\<close> the C loop would not advance, and the model
  stops there.\<close>

function directional_loop ::
  "Board \<Rightarrow> int \<Rightarrow> int \<Rightarrow> int \<Rightarrow> int \<Rightarrow> int \<Rightarrow> int \<Rightarrow> Move list" where
  "directional_loop board row col row_dir col_dir new_row new_col =
    (if (row_dir \<noteq> 0 \<or> col_dir \<noteq> 0) \<and> is_valid_position new_row new_col then
       (if piece (squares board (new_row, new_col)) = EMPTY then
          new_move row col new_row new_col EMPTY EMPTY NONE
            # directional_loop board row col row_dir col_dir (new_row + row_dir) (new_col + col_dir)
        else if color (squares board (new_row, new_col)) \<noteq> color (squares board (row, col)) then
          [new_move row col new_row new_col EMPTY
             (piece (squares board (new_row, new_col)))
             (color (squares board (new_row, new_col)))]
        else [])
     else [])"
  by pat_completeness auto
termination
  by (relation "measure (\<lambda>(board, row, col, row_dir, col_dir, new_row, new_col).
        if row_dir > 0 then nat (8 - new_row) else if row_dir < 0 then nat (new_row + 1)
        else if col_dir > 0 then nat (8 - new_col) else nat (new_col + 1))")
     (auto simp: is_valid_position_def BOARD_SIZE_def)

declare directional_loop.simps [simp del]

definition generate_directional_moves ::
  "Board \<Rightarrow> int \<Rightarrow> int \<Rightarrow> int \<Rightarrow> int \<Rightarrow> Move list" where
  "generate_directional_moves board row col row_dir col_dir =
     directional_loop board row col row_dir col_dir (row + row_dir) (col + col_dir)"

definition bishop_directions :: "(int \<times> int) list" where
  "bishop_directions = [(1, 1), (1, -1), (-1, 1), (-1, -1)]"

definition rook_directions :: "(int \<times> int) list" where
  "rook_directions = [(1, 0), (-1, 0), (0, 1), (0, -1)]"

definition generate_bishop_moves :: "Board \<Rightarrow> int \<Rightarrow> int \<Rightarrow> Move list" where
  "generate_bishop_moves board row col =
     concat (map (\<lambda>d. generate_directional_moves board row col (fst d) (snd d)) bishop_directions)"

definition generate_rook_moves :: "Board \<Rightarrow> int \<Rightarrow> int \<Rightarrow> Move list" where
  "generate_rook_moves board row col =
     concat (map (\<lambda>d. generate_directional_moves board row col (fst d) (snd d)) rook_directions)"

definition generate_queen_moves :: "Board \<Rightarrow> int \<Rightarrow> int \<Rightarrow> Move list" where
  "generate_queen_moves board row col =
     generate_bishop_moves board row col @ generate_rook_moves board row col"

text \<open>The king's double loop over \<open>row_dir, col_dir\<close> in \<open>-1..1\<close>, skipping \<open>(0, 0)\<close>.
  This is the whole of the function: the 8x8 program has no castling generation.\<close>

definition king_steps :: "(int \<times> int) list" where
  "king_steps = [(-1, -1), (-1, 0), (-1, 1), (0, -1), (0, 1), (1, -1), (1, 0), (1, 1)]"

definition generate_king_moves :: "Board \<Rightarrow> int \<Rightarrow> int \<Rightarrow> Move list" where
  "generate_king_moves board row col = concat (map (step_move board row col) king_steps)"

definition all_squares :: "(int \<times> int) list" where
  "all_squares = concat (map (\<lambda>row. map (\<lambda>col. (row, col)) [0..7]) [0..7])"

definition generate_moves_at :: "Board \<Rightarrow> int \<times> int \<Rightarrow> Move list" where
  "generate_moves_at board rc =
    (if piece (squares board rc) \<noteq> EMPTY \<and> color (squares board rc) = current_player board then
       (case piece (squares board rc) of
          PAWN \<Rightarrow> generate_pawn_moves board (fst rc) (snd rc)
        | KNIGHT \<Rightarrow> generate_knight_moves board (fst rc) (snd rc)
        | BISHOP \<Rightarrow> generate_bishop_moves board (fst rc) (snd rc)
        | ROOK \<Rightarrow> generate_rook_moves board (fst rc) (snd rc)
        | QUEEN \<Rightarrow> generate_queen_moves board (fst rc) (snd rc)
        | KING \<Rightarrow> generate_king_moves board (fst rc) (snd rc)
        | EMPTY \<Rightarrow> [])
     else [])"

definition generate_pseudo_legal_moves :: "Board \<Rightarrow> Move list" where
  "generate_pseudo_legal_moves board = concat (map (generate_moves_at board) all_squares)"

subsection \<open>Making and undoing a move\<close>

text \<open>\<open>make_move\<close> first writes the snapshot of the board's flags into the move (through a
  cast that removes \<open>const\<close>), then updates the board. The model returns the updated
  board and the move with its snapshot.\<close>

definition take_snapshot :: "Board \<Rightarrow> Move \<Rightarrow> Move" where
  "take_snapshot board move =
    move\<lparr>previous_state := (previous_state move)
      \<lparr>ps_white_castle_kingside := white_castle_kingside board,
       ps_white_castle_queenside := white_castle_queenside board,
       ps_black_castle_kingside := black_castle_kingside board,
       ps_black_castle_queenside := black_castle_queenside board,
       ps_en_passant_row := en_passant_row board,
       ps_en_passant_col := en_passant_col board,
       ps_halfmove_clock := halfmove_clock board\<rparr>\<rparr>"

text \<open>The blocks of \<open>make_move\<close>, one definition each, in the order of the source.
  \<open>moving_piece\<close> and \<open>moving_color\<close> are read from the origin square before any block
  runs.\<close>

definition castling_rook_move :: "Board \<Rightarrow> Move \<Rightarrow> Piece \<Rightarrow> PlayerColor \<Rightarrow> Board" where
  "castling_rook_move board move moving_piece moving_color =
    (if moving_piece = KING then
       (let col_diff = to_col move - from_col move;
            b = (if \<bar>col_diff\<bar> = 2 then
                   (let rook_from_col = (if col_diff > 0 then 7 else 0);
                        rook_to_col = (if col_diff > 0 then 5 else 3);
                        rook_row = from_row move;
                        b' = set_square board rook_row rook_to_col
                               (squares board (rook_row, rook_from_col))
                    in set_square b' rook_row rook_from_col empty_square)
                 else board)
        in if moving_color = PLAYER_WHITE
           then b\<lparr>white_castle_kingside := False, white_castle_queenside := False\<rparr>
           else b\<lparr>black_castle_kingside := False, black_castle_queenside := False\<rparr>)
     else board)"

definition is_en_passant_capture :: "Board \<Rightarrow> Move \<Rightarrow> bool \<Rightarrow> bool" where
  "is_en_passant_capture board move is_pawn_move \<longleftrightarrow>
     is_pawn_move \<and> to_row move = ps_en_passant_row (previous_state move)
     \<and> to_col move = ps_en_passant_col (previous_state move)
     \<and> captured_piece (previous_state move) = PAWN
     \<and> piece (squares board (to_row move, to_col move)) = EMPTY"

definition remove_en_passant_pawn :: "Board \<Rightarrow> Move \<Rightarrow> bool \<Rightarrow> Board" where
  "remove_en_passant_pawn board move is_pawn_move =
    (if is_en_passant_capture board move is_pawn_move
     then set_square board (from_row move) (to_col move) empty_square
     else board)"

definition move_the_piece :: "Board \<Rightarrow> Move \<Rightarrow> Piece \<Rightarrow> PlayerColor \<Rightarrow> Board" where
  "move_the_piece board move moving_piece moving_color =
     set_square
       (set_square board (to_row move) (to_col move)
          \<lparr>piece = (if promotion move \<noteq> EMPTY then promotion move else moving_piece),
           color = moving_color\<rparr>)
       (from_row move) (from_col move) empty_square"

definition update_en_passant_target :: "Board \<Rightarrow> Move \<Rightarrow> Piece \<Rightarrow> Board" where
  "update_en_passant_target board move moving_piece =
    (if moving_piece = PAWN \<and> \<bar>to_row move - from_row move\<bar> = 2
     then board\<lparr>en_passant_row := (from_row move + to_row move) sdiv 2,
                en_passant_col := from_col move\<rparr>
     else board\<lparr>en_passant_row := -1, en_passant_col := -1\<rparr>)"

definition update_rook_rights :: "Board \<Rightarrow> Move \<Rightarrow> Piece \<Rightarrow> PlayerColor \<Rightarrow> Board" where
  "update_rook_rights board move moving_piece moving_color =
    (if moving_piece = ROOK then
       (if moving_color = PLAYER_WHITE then
          (if from_row move = 7 \<and> from_col move = 0
           then board\<lparr>white_castle_queenside := False\<rparr>
           else if from_row move = 7 \<and> from_col move = 7
           then board\<lparr>white_castle_kingside := False\<rparr>
           else board)
        else
          (if from_row move = 0 \<and> from_col move = 0
           then board\<lparr>black_castle_queenside := False\<rparr>
           else if from_row move = 0 \<and> from_col move = 7
           then board\<lparr>black_castle_kingside := False\<rparr>
           else board))
     else board)"

definition update_captured_rook_rights :: "Board \<Rightarrow> Move \<Rightarrow> Board" where
  "update_captured_rook_rights board move =
    (if captured_piece (previous_state move) = ROOK then
       (if to_row move = 7 \<and> to_col move = 0
        then board\<lparr>white_castle_queenside := False\<rparr>
        else if to_row move = 7 \<and> to_col move = 7
        then board\<lparr>white_castle_kingside := False\<rparr>
        else if to_row move = 0 \<and> to_col move = 0
        then board\<lparr>black_castle_queenside := False\<rparr>
        else if to_row move = 0 \<and> to_col move = 7
        then board\<lparr>black_castle_kingside := False\<rparr>
        else board)
     else board)"

definition update_halfmove_clock :: "Board \<Rightarrow> bool \<Rightarrow> bool \<Rightarrow> Board" where
  "update_halfmove_clock board is_pawn_move is_capture =
    (if is_pawn_move \<or> is_capture
     then board\<lparr>halfmove_clock := 0\<rparr>
     else board\<lparr>halfmove_clock := halfmove_clock board + 1\<rparr>)"

definition update_fullmove_number :: "Board \<Rightarrow> Board" where
  "update_fullmove_number board =
    (if current_player board = PLAYER_BLACK
     then board\<lparr>fullmove_number := fullmove_number board + 1\<rparr>
     else board)"

definition switch_player :: "Board \<Rightarrow> PlayerColor \<Rightarrow> Board" where
  "switch_player board moving_color =
     board\<lparr>current_player :=
             (if moving_color = PLAYER_WHITE then PLAYER_BLACK else PLAYER_WHITE)\<rparr>"

definition make_move :: "Board \<Rightarrow> Move \<Rightarrow> Board \<times> Move" where
  "make_move board0 move0 =
    (let move = take_snapshot board0 move0;
         moving_piece = piece (squares board0 (from_row move, from_col move));
         moving_color = color (squares board0 (from_row move, from_col move));
         is_pawn_move = (moving_piece = PAWN);
         is_capture = (captured_piece (previous_state move) \<noteq> EMPTY);
         board1 = castling_rook_move board0 move moving_piece moving_color;
         board2 = remove_en_passant_pawn board1 move is_pawn_move;
         board3 = move_the_piece board2 move moving_piece moving_color;
         board4 = update_en_passant_target board3 move moving_piece;
         board5 = update_rook_rights board4 move moving_piece moving_color;
         board6 = update_captured_rook_rights board5 move;
         board7 = update_halfmove_clock board6 is_pawn_move is_capture;
         board8 = update_fullmove_number board7
     in (switch_player board8 moving_color, move))"

text \<open>The blocks of \<open>undo_move\<close>. \<open>previous_player\<close> and \<open>original_moved_piece\<close> are
  computed from the board as it is handed in.\<close>

definition restore_flags :: "Board \<Rightarrow> Move \<Rightarrow> Board" where
  "restore_flags board move = board
     \<lparr>white_castle_kingside := ps_white_castle_kingside (previous_state move),
      white_castle_queenside := ps_white_castle_queenside (previous_state move),
      black_castle_kingside := ps_black_castle_kingside (previous_state move),
      black_castle_queenside := ps_black_castle_queenside (previous_state move),
      en_passant_row := ps_en_passant_row (previous_state move),
      en_passant_col := ps_en_passant_col (previous_state move),
      halfmove_clock := ps_halfmove_clock (previous_state move)\<rparr>"

definition restore_origin :: "Board \<Rightarrow> Move \<Rightarrow> Piece \<Rightarrow> PlayerColor \<Rightarrow> Board" where
  "restore_origin board move original_moved_piece previous_player =
     set_square board (from_row move) (from_col move)
       \<lparr>piece = original_moved_piece, color = previous_player\<rparr>"

definition undo_is_en_passant :: "Board \<Rightarrow> Move \<Rightarrow> Piece \<Rightarrow> bool" where
  "undo_is_en_passant board move original_moved_piece \<longleftrightarrow>
     original_moved_piece = PAWN \<and> to_row move = en_passant_row board
     \<and> to_col move = en_passant_col board \<and> captured_piece (previous_state move) = PAWN"

definition restore_destination :: "Board \<Rightarrow> Move \<Rightarrow> Piece \<Rightarrow> Board" where
  "restore_destination board move original_moved_piece =
    (if undo_is_en_passant board move original_moved_piece then
       set_square (set_square board (to_row move) (to_col move) empty_square)
         (from_row move) (to_col move)
         \<lparr>piece = PAWN, color = captured_color (previous_state move)\<rparr>
     else
       set_square board (to_row move) (to_col move)
         \<lparr>piece = captured_piece (previous_state move),
          color = captured_color (previous_state move)\<rparr>)"

definition undo_castling_rook :: "Board \<Rightarrow> Move \<Rightarrow> Piece \<Rightarrow> Board" where
  "undo_castling_rook board move original_moved_piece =
    (let col_diff = to_col move - from_col move in
     if original_moved_piece = KING \<and> \<bar>col_diff\<bar> = 2 then
       (let rook_from_col = (if col_diff > 0 then 7 else 0);
            rook_to_col = (if col_diff > 0 then 5 else 3);
            rook_row = from_row move;
            b' = set_square board rook_row rook_from_col
                   (squares board (rook_row, rook_to_col))
        in set_square b' rook_row rook_to_col empty_square)
     else board)"

definition restore_fullmove_number :: "Board \<Rightarrow> Board" where
  "restore_fullmove_number board =
    (if current_player board = PLAYER_WHITE
     then board\<lparr>fullmove_number := fullmove_number board - 1\<rparr>
     else board)"

definition undo_move :: "Board \<Rightarrow> Move \<Rightarrow> Board" where
  "undo_move board0 move =
    (let previous_player =
           (if current_player board0 = PLAYER_WHITE then PLAYER_BLACK else PLAYER_WHITE);
         moved_piece_type_on_board = piece (squares board0 (to_row move, to_col move));
         original_moved_piece =
           (if promotion move \<noteq> EMPTY then PAWN else moved_piece_type_on_board);
         board1 = restore_flags board0 move;
         board2 = restore_origin board1 move original_moved_piece previous_player;
         board3 = restore_destination board2 move original_moved_piece;
         board4 = undo_castling_rook board3 move original_moved_piece;
         board5 = restore_fullmove_number board4
     in board5\<lparr>current_player := previous_player\<rparr>)"

subsection \<open>Attack detection\<close>

text \<open>\<open>find_king\<close> returns its flag together with the two out-parameters; the scan is
  row by row over \<open>all_squares\<close>, and the first king of the colour wins.\<close>

definition find_king :: "Board \<Rightarrow> PlayerColor \<Rightarrow> bool \<times> int \<times> int" where
  "find_king board king_color =
    (case find (\<lambda>rc. piece (squares board rc) = KING \<and> color (squares board rc) = king_color)
            all_squares of
       Some rc \<Rightarrow> (True, fst rc, snd rc)
     | None \<Rightarrow> (False, -1, -1))"

text \<open>One ray of the sliding-piece test: the loop \<open>for (j = 1; ; j++)\<close>. The result is
  \<open>True\<close> where the source returns \<open>true\<close> from inside the loop and \<open>False\<close> where it
  breaks out of it. The eight directions are constants of the source, none of them
  \<open>(0, 0)\<close>, where the model stops.\<close>

function ray_attacked ::
  "Board \<Rightarrow> int \<Rightarrow> int \<Rightarrow> PlayerColor \<Rightarrow> int \<Rightarrow> int \<Rightarrow> int \<Rightarrow> bool" where
  "ray_attacked board row col attacker_color dr dc j =
    (let nr = row + j * dr; nc = col + j * dc in
     if (dr = 0 \<and> dc = 0) \<or> \<not> is_valid_position nr nc then False
     else if piece (squares board (nr, nc)) \<noteq> EMPTY then
       (if color (squares board (nr, nc)) = attacker_color then
          (let p = piece (squares board (nr, nc));
               is_diagonal = (dr \<noteq> 0 \<and> dc \<noteq> 0);
               is_straight = (dr = 0 \<or> dc = 0)
           in p = QUEEN \<or> (is_diagonal \<and> p = BISHOP) \<or> (is_straight \<and> p = ROOK))
        else False)
     else ray_attacked board row col attacker_color dr dc (j + 1))"
  by pat_completeness auto
termination
  by (relation "measure (\<lambda>(board, row, col, attacker_color, dr, dc, j).
        if dr > 0 then nat (8 - (row + j * dr)) else if dr < 0 then nat (row + j * dr + 1)
        else if dc > 0 then nat (8 - (col + j * dc)) else nat (col + j * dc + 1))")
     (auto simp: is_valid_position_def BOARD_SIZE_def algebra_simps)

declare ray_attacked.simps [simp del]

definition attack_directions :: "(int \<times> int) list" where
  "attack_directions = [(1, 0), (-1, 0), (0, 1), (0, -1), (1, 1), (1, -1), (-1, 1), (-1, -1)]"

definition piece_at_is :: "Board \<Rightarrow> int \<Rightarrow> int \<Rightarrow> Piece \<Rightarrow> PlayerColor \<Rightarrow> bool" where
  "piece_at_is board r c p k \<longleftrightarrow>
     is_valid_position r c \<and> piece (squares board (r, c)) = p \<and> color (squares board (r, c)) = k"

definition is_square_attacked :: "Board \<Rightarrow> int \<Rightarrow> int \<Rightarrow> PlayerColor \<Rightarrow> bool" where
  "is_square_attacked board row col attacker_color =
    (let pawn_dir = (if attacker_color = PLAYER_WHITE then 1 else -1);
         attack_row = row + pawn_dir
     in piece_at_is board attack_row (col - 1) PAWN attacker_color
        \<or> piece_at_is board attack_row (col + 1) PAWN attacker_color
        \<or> list_ex (\<lambda>d. piece_at_is board (row + fst d) (col + snd d) KNIGHT attacker_color)
             knight_moves
        \<or> list_ex (\<lambda>d. ray_attacked board row col attacker_color (fst d) (snd d) 1)
             attack_directions
        \<or> list_ex (\<lambda>d. piece_at_is board (row + fst d) (col + snd d) KING attacker_color)
             king_steps)"

definition is_king_in_check :: "Board \<Rightarrow> PlayerColor \<Rightarrow> bool" where
  "is_king_in_check board king_color =
    (case find_king board king_color of
       (found, king_row, king_col) \<Rightarrow>
         if \<not> found then False
         else is_square_attacked board king_row king_col
                (if king_color = PLAYER_WHITE then PLAYER_BLACK else PLAYER_WHITE))"

subsection \<open>Legal moves\<close>

text \<open>\<open>generate_legal_moves\<close> copies the caller's board into \<open>temp_board\<close>, generates the
  pseudo-legal moves there, and runs make, test, undo for each candidate on that one
  copy; a kept move is copied out after \<open>make_move\<close> has written its snapshot. The
  caller's board is only read.\<close>

fun legal_loop :: "Board \<Rightarrow> PlayerColor \<Rightarrow> Move list \<Rightarrow> Move list" where
  "legal_loop temp_board player [] = []"
| "legal_loop temp_board player (m # ms) =
    (case make_move temp_board m of
       (made, m') \<Rightarrow>
         (if \<not> is_king_in_check made player then [m'] else [])
         @ legal_loop (undo_move made m') player ms)"

definition generate_legal_moves :: "Board \<Rightarrow> Move list" where
  "generate_legal_moves board =
     legal_loop board (current_player board) (generate_pseudo_legal_moves board)"

text \<open>The same loop with the pair returned by \<open>make_move\<close> passed on as an argument, so
  that evaluation makes the move once before testing and undoing it.\<close>

definition legal_after :: "Board \<times> Move \<Rightarrow> PlayerColor \<Rightarrow> Move list \<Rightarrow> Move list" where
  "legal_after mm player ms =
     (if \<not> is_king_in_check (fst mm) player then [snd mm] else [])
     @ legal_loop (undo_move (fst mm) (snd mm)) player ms"

subsection \<open>Evaluation\<close>

text \<open>The piece-square tables, row by row as in the source, and the table
  \<open>piece_values\<close> indexed by the piece. A table is read at a row and a column of the
  scan, both between 0 and 7.\<close>

definition pawn_pst :: "int list list" where
  "pawn_pst =
    [[0, 0, 0, 0, 0, 0, 0, 0],
     [50, 50, 50, 50, 50, 50, 50, 50],
     [10, 10, 20, 30, 30, 20, 10, 10],
     [5, 5, 10, 25, 25, 10, 5, 5],
     [0, 0, 0, 20, 20, 0, 0, 0],
     [5, -5, -10, 0, 0, -10, -5, 5],
     [5, 10, 10, -20, -20, 10, 10, 5],
     [0, 0, 0, 0, 0, 0, 0, 0]]"

definition knight_pst :: "int list list" where
  "knight_pst =
    [[-50, -40, -30, -30, -30, -30, -40, -50],
     [-40, -20, 0, 0, 0, 0, -20, -40],
     [-30, 0, 10, 15, 15, 10, 0, -30],
     [-30, 5, 15, 20, 20, 15, 5, -30],
     [-30, 0, 15, 20, 20, 15, 0, -30],
     [-30, 5, 10, 15, 15, 10, 5, -30],
     [-40, -20, 0, 5, 5, 0, -20, -40],
     [-50, -40, -30, -30, -30, -30, -40, -50]]"

definition bishop_pst :: "int list list" where
  "bishop_pst =
    [[-20, -10, -10, -10, -10, -10, -10, -20],
     [-10, 0, 0, 0, 0, 0, 0, -10],
     [-10, 0, 5, 10, 10, 5, 0, -10],
     [-10, 5, 5, 10, 10, 5, 5, -10],
     [-10, 0, 10, 10, 10, 10, 0, -10],
     [-10, 10, 10, 10, 10, 10, 10, -10],
     [-10, 5, 0, 0, 0, 0, 5, -10],
     [-20, -10, -10, -10, -10, -10, -10, -20]]"

definition rook_pst :: "int list list" where
  "rook_pst =
    [[0, 0, 0, 0, 0, 0, 0, 0],
     [5, 10, 10, 10, 10, 10, 10, 5],
     [-5, 0, 0, 0, 0, 0, 0, -5],
     [-5, 0, 0, 0, 0, 0, 0, -5],
     [-5, 0, 0, 0, 0, 0, 0, -5],
     [-5, 0, 0, 0, 0, 0, 0, -5],
     [-5, 0, 0, 0, 0, 0, 0, -5],
     [0, 0, 0, 5, 5, 0, 0, 0]]"

definition queen_pst :: "int list list" where
  "queen_pst =
    [[-20, -10, -10, -5, -5, -10, -10, -20],
     [-10, 0, 0, 0, 0, 0, 0, -10],
     [-10, 0, 5, 5, 5, 5, 0, -10],
     [-5, 0, 5, 5, 5, 5, 0, -5],
     [0, 0, 5, 5, 5, 5, 0, -5],
     [-10, 5, 5, 5, 5, 5, 0, -10],
     [-10, 0, 5, 0, 0, 0, 0, -10],
     [-20, -10, -10, -5, -5, -10, -10, -20]]"

definition king_pst :: "int list list" where
  "king_pst =
    [[-30, -40, -40, -50, -50, -40, -40, -30],
     [-30, -40, -40, -50, -50, -40, -40, -30],
     [-30, -40, -40, -50, -50, -40, -40, -30],
     [-30, -40, -40, -50, -50, -40, -40, -30],
     [-20, -30, -30, -40, -40, -30, -30, -20],
     [-10, -20, -20, -20, -20, -20, -20, -10],
     [20, 20, 0, 0, 0, 0, 20, 20],
     [20, 30, 10, 0, 0, 10, 30, 20]]"

definition pst_lookup :: "int list list \<Rightarrow> int \<Rightarrow> int \<Rightarrow> int" where
  "pst_lookup table r c = table ! nat r ! nat c"

definition piece_values :: "Piece \<Rightarrow> int" where
  "piece_values p = (case p of EMPTY \<Rightarrow> 0 | PAWN \<Rightarrow> 100 | KNIGHT \<Rightarrow> 320 | BISHOP \<Rightarrow> 330
     | ROOK \<Rightarrow> 500 | QUEEN \<Rightarrow> 900 | KING \<Rightarrow> 20000)"

definition positional_value :: "Piece \<Rightarrow> int \<Rightarrow> int \<Rightarrow> int" where
  "positional_value p r c =
     (case p of PAWN \<Rightarrow> pst_lookup pawn_pst r c | KNIGHT \<Rightarrow> pst_lookup knight_pst r c
      | BISHOP \<Rightarrow> pst_lookup bishop_pst r c | ROOK \<Rightarrow> pst_lookup rook_pst r c
      | QUEEN \<Rightarrow> pst_lookup queen_pst r c | KING \<Rightarrow> pst_lookup king_pst r c
      | EMPTY \<Rightarrow> 0)"

text \<open>What one square adds to \<open>material_score\<close> and to \<open>positional_score\<close>; every piece
  that is not White's counts as Black's, as in the source's \<open>else\<close>.\<close>

definition material_term :: "Board \<Rightarrow> int \<times> int \<Rightarrow> int" where
  "material_term board rc =
    (if piece (squares board rc) \<noteq> EMPTY then
       (if color (squares board rc) = PLAYER_WHITE then piece_values (piece (squares board rc))
        else - piece_values (piece (squares board rc)))
     else 0)"

definition positional_term :: "Board \<Rightarrow> int \<times> int \<Rightarrow> int" where
  "positional_term board rc =
    (if piece (squares board rc) \<noteq> EMPTY then
       (if color (squares board rc) = PLAYER_WHITE
        then positional_value (piece (squares board rc)) (fst rc) (snd rc)
        else - positional_value (piece (squares board rc)) (7 - fst rc) (snd rc))
     else 0)"

definition evaluate_board :: "Board \<Rightarrow> int" where
  "evaluate_board board =
     sum_list (map (material_term board) all_squares)
     + sum_list (map (positional_term board) all_squares)"

subsection \<open>Game over and search\<close>

definition score_piece_values :: "Piece \<Rightarrow> int" where
  "score_piece_values p = (case p of EMPTY \<Rightarrow> 0 | PAWN \<Rightarrow> 100 | KNIGHT \<Rightarrow> 320 | BISHOP \<Rightarrow> 330
     | ROOK \<Rightarrow> 500 | QUEEN \<Rightarrow> 900 | KING \<Rightarrow> 0)"

definition score_move :: "Board \<Rightarrow> Move \<Rightarrow> int" where
  "score_move board move =
    (if promotion move \<noteq> EMPTY then score_piece_values (promotion move) + 10000
     else if captured_piece (previous_state move) \<noteq> EMPTY then
       score_piece_values (captured_piece (previous_state move))
       - (score_piece_values (piece (squares board (from_row move, from_col move))) sdiv 10)
       + 1000
     else 0)"

text \<open>\<open>qsort\<close> with \<open>compare_moves\<close> sorts by descending score; C leaves the order of
  moves with equal scores open, and the model takes the stable order.\<close>

definition order_moves :: "Board \<Rightarrow> Move list \<Rightarrow> Move list" where
  "order_moves board moves =
     sort_key (\<lambda>m. - score m) (map (\<lambda>m. m\<lparr>score := score_move board m\<rparr>) moves)"

text \<open>\<open>strstr(haystack, needle) != NULL\<close>.\<close>

fun strstr :: "string \<Rightarrow> string \<Rightarrow> bool" where
  "strstr [] needle = (needle = [])"
| "strstr (h # hs) needle = (take (length needle) (h # hs) = needle \<or> strstr hs needle)"

text \<open>\<open>is_game_over\<close> returns its flag and the text it prints into \<open>result_message\<close>
  (no text is longer than the 100 bytes of the callers' buffers).\<close>

definition is_game_over :: "Board \<Rightarrow> bool \<times> string" where
  "is_game_over board =
    (let legal_move_count = length (generate_legal_moves board);
         in_check = is_king_in_check board (current_player board)
     in if legal_move_count = 0 then
          (if in_check
           then (True, ''Checkmate! ''
                   @ (if current_player board = PLAYER_WHITE then ''Black'' else ''White'')
                   @ '' wins.'')
           else (True, ''Stalemate! Draw.''))
        else if halfmove_clock board \<ge> 100 then (True, ''Draw by 50-move rule.'')
        else if \<not> fst (find_king board PLAYER_WHITE) \<or> \<not> fst (find_king board PLAYER_BLACK)
        then (True, ''Game Over! A king is missing.'')
        else (False, ''Game ongoing.''))"

text \<open>The two loops of \<open>minimax\<close> over the ordered moves, with the recursive call passed
  in as \<open>search\<close>. The board is the caller's, changed in place by make and undo, so each
  loop returns the board it leaves together with the value.\<close>

fun max_loop ::
  "(Board \<Rightarrow> int \<Rightarrow> int \<Rightarrow> (Board \<times> int) option) \<Rightarrow> Board \<Rightarrow> Move list
     \<Rightarrow> int \<Rightarrow> int \<Rightarrow> int \<Rightarrow> (Board \<times> int) option" where
  "max_loop search board [] alpha beta max_eval = Some (board, max_eval)"
| "max_loop search board (m # ms) alpha beta max_eval =
    (case make_move board m of
       (made, m') \<Rightarrow>
         (case search made alpha beta of
            None \<Rightarrow> None
          | Some (board', eval) \<Rightarrow>
              (let board'' = undo_move board' m';
                   max_eval' = (if eval > max_eval then eval else max_eval);
                   alpha' = (if alpha > max_eval' then alpha else max_eval')
               in if beta \<le> alpha' then Some (board'', max_eval')
                  else max_loop search board'' ms alpha' beta max_eval')))"

fun min_loop ::
  "(Board \<Rightarrow> int \<Rightarrow> int \<Rightarrow> (Board \<times> int) option) \<Rightarrow> Board \<Rightarrow> Move list
     \<Rightarrow> int \<Rightarrow> int \<Rightarrow> int \<Rightarrow> (Board \<times> int) option" where
  "min_loop search board [] alpha beta min_eval = Some (board, min_eval)"
| "min_loop search board (m # ms) alpha beta min_eval =
    (case make_move board m of
       (made, m') \<Rightarrow>
         (case search made alpha beta of
            None \<Rightarrow> None
          | Some (board', eval) \<Rightarrow>
              (let board'' = undo_move board' m';
                   min_eval' = (if eval < min_eval then eval else min_eval);
                   beta' = (if beta < min_eval' then beta else min_eval')
               in if beta' \<le> alpha then Some (board'', min_eval')
                  else min_loop search board'' ms alpha beta' min_eval')))"

text \<open>\<open>minimax\<close>, with a bound on the depth of the recursion as first argument (\<open>None\<close>
  when the bound is reached): the C function recurses on \<open>depth - 1\<close> and stops when the
  game is over or at \<open>depth == 0\<close>, so a call with a negative depth has no bound of its
  own.\<close>

fun minimax :: "nat \<Rightarrow> Board \<Rightarrow> int \<Rightarrow> int \<Rightarrow> int \<Rightarrow> bool \<Rightarrow> (Board \<times> int) option" where
  "minimax 0 board depth alpha beta maximizing_player = None"
| "minimax (Suc fuel) board depth alpha beta maximizing_player =
    (case is_game_over board of
       (True, msg) \<Rightarrow>
         (if strstr msg ''Checkmate''
          then Some (board, if current_player board = PLAYER_WHITE
                            then - MATE_SCORE - depth else MATE_SCORE + depth)
          else Some (board, 0))
     | (False, msg) \<Rightarrow>
         (if depth = 0 then Some (board, evaluate_board board)
          else
            (let moves = order_moves board (generate_legal_moves board) in
             if maximizing_player then
               max_loop (\<lambda>b a be. minimax fuel b (depth - 1) a be False)
                 board moves alpha beta (- INFINITY - 1)
             else
               min_loop (\<lambda>b a be. minimax fuel b (depth - 1) a be True)
                 board moves alpha beta (INFINITY + 1))))"

section \<open>The 3D engine (the raylib 3x8x8 chess program)\<close>

subsection \<open>Data model\<close>

text \<open>The 3D program has its own colour enum, square, move and board; it shares the
  enum \<open>Piece\<close>. Names that the 2D program also uses carry the suffix \<open>_3d\<close>. A move has
  no snapshot here, only the flag \<open>is_capture\<close>. The array
  \<open>squares[3][8][8]\<close> is a store from index triples (layer, row, column).\<close>

datatype PieceColor = P_WHITE | P_BLACK | P_NONE

record Square_3d =
  piece_3d :: Piece
  color_3d :: PieceColor

record Move_3d =
  from_layer :: int
  from_row_3d :: int
  from_col_3d :: int
  to_layer :: int
  to_row_3d :: int
  to_col_3d :: int
  promotion_3d :: Piece
  score_3d :: int
  is_capture :: bool

record Board_3d =
  squares_3d :: "int \<times> int \<times> int \<Rightarrow> Square_3d"
  current_player_3d :: PieceColor
  white_castle_kingside_3d :: bool
  white_castle_queenside_3d :: bool
  black_castle_kingside_3d :: bool
  black_castle_queenside_3d :: bool
  en_passant_layer :: int
  en_passant_row_3d :: int
  en_passant_col_3d :: int
  halfmove_clock_3d :: int
  fullmove_number_3d :: int

definition BOARD_LAYERS :: int where
  "BOARD_LAYERS = 3"

definition empty_square_3d :: Square_3d where
  "empty_square_3d = \<lparr>piece_3d = EMPTY, color_3d = P_NONE\<rparr>"

definition set_square_3d :: "Board_3d \<Rightarrow> int \<times> int \<times> int \<Rightarrow> Square_3d \<Rightarrow> Board_3d" where
  "set_square_3d board lrc s = board\<lparr>squares_3d := (squares_3d board)(lrc := s)\<rparr>"

definition init_board_3d :: Board_3d where
  "init_board_3d =
    \<lparr>squares_3d = (\<lambda>(l, r, c).
        if 0 \<le> c \<and> c < BOARD_SIZE then
          (if l = 0 \<and> r = 0 then \<lparr>piece_3d = back_row c, color_3d = P_BLACK\<rparr>
           else if l = 0 \<and> r = 1 then \<lparr>piece_3d = PAWN, color_3d = P_BLACK\<rparr>
           else if l = 2 \<and> r = 6 then \<lparr>piece_3d = PAWN, color_3d = P_WHITE\<rparr>
           else if l = 2 \<and> r = 7 then \<lparr>piece_3d = back_row c, color_3d = P_WHITE\<rparr>
           else empty_square_3d)
        else empty_square_3d),
     current_player_3d = P_WHITE,
     white_castle_kingside_3d = False,
     white_castle_queenside_3d = False,
     black_castle_kingside_3d = True,
     black_castle_queenside_3d = True,
     en_passant_layer = -1,
     en_passant_row_3d = -1,
     en_passant_col_3d = -1,
     halfmove_clock_3d = 0,
     fullmove_number_3d = 1\<rparr>"

definition is_valid_position_3d :: "int \<Rightarrow> int \<Rightarrow> int \<Rightarrow> bool" where
  "is_valid_position_3d layer row col \<longleftrightarrow>
     layer \<ge> 0 \<and> layer < BOARD_LAYERS \<and> row \<ge> 0 \<and> row < BOARD_SIZE \<and> col \<ge> 0 \<and> col < BOARD_SIZE"

definition new_move_3d ::
  "int \<Rightarrow> int \<Rightarrow> int \<Rightarrow> int \<Rightarrow> int \<Rightarrow> int \<Rightarrow> Piece \<Rightarrow> bool \<Rightarrow> Move_3d" where
  "new_move_3d fl fr fc tl' tr tc promo cap =
    \<lparr>from_layer = fl, from_row_3d = fr, from_col_3d = fc,
     to_layer = tl', to_row_3d = tr, to_col_3d = tc,
     promotion_3d = promo, score_3d = 0, is_capture = cap\<rparr>"

subsection \<open>Attack detection\<close>

definition find_king_scan_3d :: "(int \<times> int \<times> int) list" where
  "find_king_scan_3d =
     concat (map (\<lambda>l. concat (map (\<lambda>r. map (\<lambda>c. (l, r, c)) [0..7]) [0..7])) [0..2])"

text \<open>\<open>find_king\<close> of the 3D program returns \<open>false\<close> and leaves its out-parameters
  unwritten when there is no king: \<open>None\<close> here.\<close>

definition find_king_3d :: "Board_3d \<Rightarrow> PieceColor \<Rightarrow> (int \<times> int \<times> int) option" where
  "find_king_3d board king_color =
     find (\<lambda>lrc. piece_3d (squares_3d board lrc) = KING
                \<and> color_3d (squares_3d board lrc) = king_color) find_king_scan_3d"

definition piece_at_is_3d ::
  "Board_3d \<Rightarrow> int \<Rightarrow> int \<Rightarrow> int \<Rightarrow> Piece \<Rightarrow> PieceColor \<Rightarrow> bool" where
  "piece_at_is_3d board l r c p k \<longleftrightarrow>
     is_valid_position_3d l r c \<and> piece_3d (squares_3d board (l, r, c)) = p
     \<and> color_3d (squares_3d board (l, r, c)) = k"

text \<open>The table \<open>directions[28][3]\<close> as the source fills it: 26 entries (layer, row,
  column).\<close>

definition inter_layer_directions :: "int \<Rightarrow> (int \<times> int \<times> int) list" where
  "inter_layer_directions l_change =
     [(l_change, 1, 0), (l_change, -1, 0), (l_change, 0, 1), (l_change, 0, -1),
      (l_change, 0, 0),
      (l_change, 1, 1), (l_change, 1, -1), (l_change, -1, 1), (l_change, -1, -1)]"

definition attack_directions_3d :: "(int \<times> int \<times> int) list" where
  "attack_directions_3d =
     [(0, 1, 0), (0, -1, 0), (0, 0, 1), (0, 0, -1),
      (0, 1, 1), (0, 1, -1), (0, -1, 1), (0, -1, -1)]
     @ inter_layer_directions (-1) @ inter_layer_directions 1"

text \<open>One ray, the loop \<open>for (step = 1; ; step++)\<close>: \<open>True\<close> where the source returns
  \<open>true\<close>, \<open>False\<close> where it breaks. No entry of the table is \<open>(0, 0, 0)\<close>, where the
  model stops.\<close>

function ray_attacked_3d ::
  "Board_3d \<Rightarrow> int \<Rightarrow> int \<Rightarrow> int \<Rightarrow> PieceColor \<Rightarrow> int \<Rightarrow> int \<Rightarrow> int \<Rightarrow> int \<Rightarrow> bool" where
  "ray_attacked_3d board target_layer target_row target_col attacker_color l_dir r_dir c_dir step =
    (let is_diagonal = (r_dir \<noteq> 0 \<and> c_dir \<noteq> 0);
         is_straight = (\<not> is_diagonal \<and> (r_dir \<noteq> 0 \<or> c_dir \<noteq> 0));
         is_vertical = (l_dir \<noteq> 0 \<and> r_dir = 0 \<and> c_dir = 0);
         is_layer_diag = (l_dir \<noteq> 0 \<and> is_diagonal);
         is_layer_straight = (l_dir \<noteq> 0 \<and> is_straight);
         current_layer = target_layer + step * l_dir;
         current_row = target_row + step * r_dir;
         current_col = target_col + step * c_dir
     in if (l_dir = 0 \<and> r_dir = 0 \<and> c_dir = 0)
           \<or> \<not> is_valid_position_3d current_layer current_row current_col then False
        else if piece_3d (squares_3d board (current_layer, current_row, current_col)) \<noteq> EMPTY then
          (let sq = squares_3d board (current_layer, current_row, current_col) in
           if color_3d sq = attacker_color then
             (piece_3d sq = QUEEN
              \<or> (piece_3d sq = ROOK \<and> (is_straight \<or> is_vertical \<or> is_layer_straight))
              \<or> (piece_3d sq = BISHOP \<and> (is_diagonal \<or> is_layer_diag)))
           else False)
        else ray_attacked_3d board target_layer target_row target_col attacker_color
               l_dir r_dir c_dir (step + 1))"
  by pat_completeness auto
termination
  by (relation "measure (\<lambda>(board, tl', tr, tc, attacker_color, l_dir, r_dir, c_dir, step).
        if l_dir > 0 then nat (3 - (tl' + step * l_dir))
        else if l_dir < 0 then nat (tl' + step * l_dir + 1)
        else if r_dir > 0 then nat (8 - (tr + step * r_dir))
        else if r_dir < 0 then nat (tr + step * r_dir + 1)
        else if c_dir > 0 then nat (8 - (tc + step * c_dir))
        else nat (tc + step * c_dir + 1))")
     (auto simp: is_valid_position_3d_def BOARD_SIZE_def BOARD_LAYERS_def algebra_simps)

declare ray_attacked_3d.simps [simp del]

definition layer_offsets :: "int list" where
  "layer_offsets = [-1, 0, 1]"

definition king_steps_3d :: "(int \<times> int \<times> int) list" where
  "king_steps_3d =
     filter (\<lambda>d. d \<noteq> (0, 0, 0))
       (concat (map (\<lambda>l. concat (map (\<lambda>r. map (\<lambda>c. (l, r, c)) [-1, 0, 1]) [-1, 0, 1]))
          layer_offsets))"

definition is_square_attacked_3d ::
  "Board_3d \<Rightarrow> int \<Rightarrow> int \<Rightarrow> int \<Rightarrow> PieceColor \<Rightarrow> bool" where
  "is_square_attacked_3d board target_layer target_row target_col attacker_color =
    (let pawn_direction = (if attacker_color = P_WHITE then -1 else 1);
         pawn_start_row = target_row - pawn_direction
     in list_ex (\<lambda>col_offset.
          piece_at_is_3d board target_layer pawn_start_row (target_col + col_offset)
            PAWN attacker_color) [-1, 1]
        \<or> list_ex (\<lambda>layer_offset.
             0 \<le> target_layer + layer_offset \<and> target_layer + layer_offset < BOARD_LAYERS
             \<and> list_ex (\<lambda>col_offset.
                  piece_at_is_3d board (target_layer + layer_offset) pawn_start_row
                    (target_col + col_offset) PAWN attacker_color) [-1, 1]) [-1, 1]
        \<or> list_ex (\<lambda>l_offset.
             0 \<le> target_layer + l_offset \<and> target_layer + l_offset < BOARD_LAYERS
             \<and> list_ex (\<lambda>d.
                  piece_at_is_3d board (target_layer + l_offset) (target_row + fst d)
                    (target_col + snd d) KNIGHT attacker_color) knight_moves) layer_offsets
        \<or> list_ex (\<lambda>(l_dir, r_dir, c_dir).
             ray_attacked_3d board target_layer target_row target_col attacker_color
               l_dir r_dir c_dir 1) attack_directions_3d
        \<or> list_ex (\<lambda>(l_offset, r_offset, c_offset).
             piece_at_is_3d board (target_layer + l_offset) (target_row + r_offset)
               (target_col + c_offset) KING attacker_color) king_steps_3d)"

definition is_king_in_check_3d :: "Board_3d \<Rightarrow> PieceColor \<Rightarrow> bool" where
  "is_king_in_check_3d board king_color =
    (case find_king_3d board king_color of
       None \<Rightarrow> False
     | Some (king_layer, king_row, king_col) \<Rightarrow>
         is_square_attacked_3d board king_layer king_row king_col
           (if king_color = P_WHITE then P_BLACK else P_WHITE))"

subsection \<open>Move generation\<close>

definition pawn_direction_3d :: "Board_3d \<Rightarrow> int \<Rightarrow> int \<Rightarrow> int \<Rightarrow> int" where
  "pawn_direction_3d board layer row col =
     (if color_3d (squares_3d board (layer, row, col)) = P_WHITE then -1 else 1)"

definition pawn_start_row_3d :: "Board_3d \<Rightarrow> int \<Rightarrow> int \<Rightarrow> int \<Rightarrow> int" where
  "pawn_start_row_3d board layer row col =
     (if color_3d (squares_3d board (layer, row, col)) = P_WHITE then 6 else 1)"

definition pawn_promotion_row_3d :: "Board_3d \<Rightarrow> int \<Rightarrow> int \<Rightarrow> int \<Rightarrow> int" where
  "pawn_promotion_row_3d board layer row col =
     (if color_3d (squares_3d board (layer, row, col)) = P_WHITE then 0 else 7)"

text \<open>The blocks of the 3D \<open>generate_pawn_moves\<close>: forward moves on the layer, the
  capture loop body on the layer, and the body of the inter-layer loop.\<close>

definition pawn_forward_moves_3d :: "Board_3d \<Rightarrow> int \<Rightarrow> int \<Rightarrow> int \<Rightarrow> Move_3d list" where
  "pawn_forward_moves_3d board layer row col =
    (let direction = pawn_direction_3d board layer row col;
         start_row = pawn_start_row_3d board layer row col;
         promotion_row = pawn_promotion_row_3d board layer row col;
         next_row = row + direction
     in if is_valid_position_3d layer next_row col
           \<and> piece_3d (squares_3d board (layer, next_row, col)) = EMPTY then
          (if next_row = promotion_row
           then map (\<lambda>p. new_move_3d layer row col layer next_row col p False) promo_pieces
           else [new_move_3d layer row col layer next_row col EMPTY False])
          @ (if row = start_row \<and> is_valid_position_3d layer (row + 2 * direction) col
                \<and> piece_3d (squares_3d board (layer, row + 2 * direction, col)) = EMPTY
             then [new_move_3d layer row col layer (row + 2 * direction) col EMPTY False]
             else [])
        else [])"

definition pawn_capture_moves_3d ::
  "Board_3d \<Rightarrow> int \<Rightarrow> int \<Rightarrow> int \<Rightarrow> int \<Rightarrow> Move_3d list" where
  "pawn_capture_moves_3d board layer row col col_offset =
    (let direction = pawn_direction_3d board layer row col;
         promotion_row = pawn_promotion_row_3d board layer row col;
         next_row = row + direction;
         capture_col = col + col_offset
     in if is_valid_position_3d layer next_row capture_col then
          (if piece_3d (squares_3d board (layer, next_row, capture_col)) \<noteq> EMPTY
              \<and> color_3d (squares_3d board (layer, next_row, capture_col))
                  \<noteq> color_3d (squares_3d board (layer, row, col)) then
             (if next_row = promotion_row
              then map (\<lambda>p. new_move_3d layer row col layer next_row capture_col p True)
                     promo_pieces
              else [new_move_3d layer row col layer next_row capture_col EMPTY True])
           else if layer = en_passant_layer board \<and> next_row = en_passant_row_3d board
              \<and> capture_col = en_passant_col_3d board
              \<and> color_3d (squares_3d board (layer, row, col))
                  \<noteq> color_3d (squares_3d board
                        (layer, en_passant_row_3d board - direction, en_passant_col_3d board))
           then [new_move_3d layer row col layer next_row capture_col EMPTY True]
           else [])
        else [])"

definition pawn_inter_layer_moves_3d ::
  "Board_3d \<Rightarrow> int \<Rightarrow> int \<Rightarrow> int \<Rightarrow> int \<Rightarrow> Move_3d list" where
  "pawn_inter_layer_moves_3d board layer row col layer_change =
    (let next_row = row + pawn_direction_3d board layer row col;
         new_layer = layer + layer_change
     in if new_layer < 0 \<or> new_layer \<ge> BOARD_LAYERS then []
        else
          (if is_valid_position_3d new_layer next_row col
              \<and> piece_3d (squares_3d board (new_layer, next_row, col)) = EMPTY
           then [new_move_3d layer row col new_layer next_row col EMPTY False] else [])
          @ concat (map (\<lambda>col_offset.
              (let capture_col = col + col_offset in
               if is_valid_position_3d new_layer next_row capture_col
                  \<and> piece_3d (squares_3d board (new_layer, next_row, capture_col)) \<noteq> EMPTY
                  \<and> color_3d (squares_3d board (new_layer, next_row, capture_col))
                      \<noteq> color_3d (squares_3d board (layer, row, col))
               then [new_move_3d layer row col new_layer next_row capture_col EMPTY True]
               else [])) [-1, 1]))"

definition generate_pawn_moves_3d :: "Board_3d \<Rightarrow> int \<Rightarrow> int \<Rightarrow> int \<Rightarrow> Move_3d list" where
  "generate_pawn_moves_3d board layer row col =
     pawn_forward_moves_3d board layer row col
     @ pawn_capture_moves_3d board layer row col (-1)
     @ pawn_capture_moves_3d board layer row col 1
     @ pawn_inter_layer_moves_3d board layer row col (-1)
     @ pawn_inter_layer_moves_3d board layer row col 1"

text \<open>The body shared by the knight's and the king's loops of the 3D program: one step
  to a valid square that is empty or holds a piece of another colour.\<close>

definition step_move_3d ::
  "Board_3d \<Rightarrow> int \<Rightarrow> int \<Rightarrow> int \<Rightarrow> int \<times> int \<times> int \<Rightarrow> Move_3d list" where
  "step_move_3d board layer row col d =
    (case d of (l_offset, r_offset, c_offset) \<Rightarrow>
      (let new_layer = layer + l_offset; new_row = row + r_offset; new_col = col + c_offset in
       if is_valid_position_3d new_layer new_row new_col then
         (let target_sq = squares_3d board (new_layer, new_row, new_col) in
          if piece_3d target_sq = EMPTY
             \<or> color_3d target_sq \<noteq> color_3d (squares_3d board (layer, row, col))
          then [new_move_3d layer row col new_layer new_row new_col EMPTY
                  (piece_3d target_sq \<noteq> EMPTY)]
          else [])
       else []))"

definition generate_knight_moves_3d :: "Board_3d \<Rightarrow> int \<Rightarrow> int \<Rightarrow> int \<Rightarrow> Move_3d list" where
  "generate_knight_moves_3d board layer row col =
     concat (map (\<lambda>l_offset.
       if layer + l_offset < 0 \<or> layer + l_offset \<ge> BOARD_LAYERS then []
       else concat (map (\<lambda>d. step_move_3d board layer row col (l_offset, fst d, snd d))
              knight_moves)) layer_offsets)"

function directional_loop_3d ::
  "Board_3d \<Rightarrow> int \<Rightarrow> int \<Rightarrow> int \<Rightarrow> int \<Rightarrow> int \<Rightarrow> int \<Rightarrow> int \<Rightarrow> int \<Rightarrow> int \<Rightarrow> Move_3d list" where
  "directional_loop_3d board layer row col row_dir col_dir layer_dir
       current_layer current_row current_col =
    (if (row_dir \<noteq> 0 \<or> col_dir \<noteq> 0 \<or> layer_dir \<noteq> 0)
        \<and> is_valid_position_3d current_layer current_row current_col then
       (if piece_3d (squares_3d board (current_layer, current_row, current_col)) = EMPTY then
          new_move_3d layer row col current_layer current_row current_col EMPTY False
            # directional_loop_3d board layer row col row_dir col_dir layer_dir
                (current_layer + layer_dir) (current_row + row_dir) (current_col + col_dir)
        else if color_3d (squares_3d board (current_layer, current_row, current_col))
                  \<noteq> color_3d (squares_3d board (layer, row, col)) then
          [new_move_3d layer row col current_layer current_row current_col EMPTY True]
        else [])
     else [])"
  by pat_completeness auto
termination
  by (relation "measure (\<lambda>(board, layer, row, col, row_dir, col_dir, layer_dir, cl, cr, cc).
        if layer_dir > 0 then nat (3 - cl) else if layer_dir < 0 then nat (cl + 1)
        else if row_dir > 0 then nat (8 - cr) else if row_dir < 0 then nat (cr + 1)
        else if col_dir > 0 then nat (8 - cc) else nat (cc + 1))")
     (auto simp: is_valid_position_3d_def BOARD_SIZE_def BOARD_LAYERS_def)

declare directional_loop_3d.simps [simp del]

definition generate_directional_moves_3d ::
  "Board_3d \<Rightarrow> int \<Rightarrow> int \<Rightarrow> int \<Rightarrow> int \<Rightarrow> int \<Rightarrow> int \<Rightarrow> Move_3d list" where
  "generate_directional_moves_3d board layer row col row_dir col_dir layer_dir =
     directional_loop_3d board layer row col row_dir col_dir layer_dir
       (layer + layer_dir) (row + row_dir) (col + col_dir)"

definition generate_bishop_moves_3d :: "Board_3d \<Rightarrow> int \<Rightarrow> int \<Rightarrow> int \<Rightarrow> Move_3d list" where
  "generate_bishop_moves_3d board layer row col =
     concat (map (\<lambda>d. generate_directional_moves_3d board layer row col (fst d) (snd d) 0)
               bishop_directions)
     @ concat (map (\<lambda>layer_change.
         concat (map (\<lambda>d. generate_directional_moves_3d board layer row col (fst d) (snd d)
                            layer_change) bishop_directions)) [-1, 1])"

definition generate_rook_moves_3d :: "Board_3d \<Rightarrow> int \<Rightarrow> int \<Rightarrow> int \<Rightarrow> Move_3d list" where
  "generate_rook_moves_3d board layer row col =
     concat (map (\<lambda>d. generate_directional_moves_3d board layer row col (fst d) (snd d) 0)
               rook_directions)
     @ concat (map (\<lambda>layer_change.
         generate_directional_moves_3d board layer row col 1 0 layer_change
         @ generate_directional_moves_3d board layer row col (-1) 0 layer_change
         @ generate_directional_moves_3d board layer row col 0 1 layer_change
         @ generate_directional_moves_3d board layer row col 0 (-1) layer_change
         @ generate_directional_moves_3d board layer row col 0 0 layer_change) [-1, 1])"

definition generate_queen_moves_3d :: "Board_3d \<Rightarrow> int \<Rightarrow> int \<Rightarrow> int \<Rightarrow> Move_3d list" where
  "generate_queen_moves_3d board layer row col =
     generate_bishop_moves_3d board layer row col @ generate_rook_moves_3d board layer row col"

text \<open>The castling block of the 3D \<open>generate_king_moves\<close>, kingside then queenside.\<close>

definition castling_moves_3d :: "Board_3d \<Rightarrow> int \<Rightarrow> int \<Rightarrow> int \<Rightarrow> Move_3d list" where
  "castling_moves_3d board layer row col =
    (let player_color = color_3d (squares_3d board (layer, row, col));
         opponent_color = (if player_color = P_WHITE then P_BLACK else P_WHITE);
         king_row = (if player_color = P_WHITE then 7 else 0);
         king_col_start = 4
     in if layer = 0 \<and> row = king_row \<and> col = king_col_start
           \<and> \<not> is_king_in_check_3d board player_color then
          (let can_castle_kingside =
                 (if player_color = P_WHITE then white_castle_kingside_3d board
                  else black_castle_kingside_3d board);
               can_castle_queenside =
                 (if player_color = P_WHITE then white_castle_queenside_3d board
                  else black_castle_queenside_3d board)
           in (if can_castle_kingside
                  \<and> piece_3d (squares_3d board (layer, king_row, king_col_start + 1)) = EMPTY
                  \<and> piece_3d (squares_3d board (layer, king_row, king_col_start + 2)) = EMPTY
                  \<and> \<not> is_square_attacked_3d board layer king_row (king_col_start + 1) opponent_color
                  \<and> \<not> is_square_attacked_3d board layer king_row (king_col_start + 2) opponent_color
               then [new_move_3d layer row col layer king_row (king_col_start + 2) EMPTY False]
               else [])
              @ (if can_castle_queenside
                  \<and> piece_3d (squares_3d board (layer, king_row, king_col_start - 1)) = EMPTY
                  \<and> piece_3d (squares_3d board (layer, king_row, king_col_start - 2)) = EMPTY
                  \<and> piece_3d (squares_3d board (layer, king_row, king_col_start - 3)) = EMPTY
                  \<and> \<not> is_square_attacked_3d board layer king_row (king_col_start - 1) opponent_color
                  \<and> \<not> is_square_attacked_3d board layer king_row (king_col_start - 2) opponent_color
               then [new_move_3d layer row col layer king_row (king_col_start - 2) EMPTY False]
               else []))
        else [])"

definition generate_king_moves_3d :: "Board_3d \<Rightarrow> int \<Rightarrow> int \<Rightarrow> int \<Rightarrow> Move_3d list" where
  "generate_king_moves_3d board layer row col =
     concat (map (step_move_3d board layer row col) king_steps_3d)
     @ castling_moves_3d board layer row col"

definition generate_moves_for_piece :: "Board_3d \<Rightarrow> int \<times> int \<times> int \<Rightarrow> Move_3d list" where
  "generate_moves_for_piece board lrc =
    (case lrc of (layer, row, col) \<Rightarrow>
      (case piece_3d (squares_3d board lrc) of
         PAWN \<Rightarrow> generate_pawn_moves_3d board layer row col
       | KNIGHT \<Rightarrow> generate_knight_moves_3d board layer row col
       | BISHOP \<Rightarrow> generate_bishop_moves_3d board layer row col
       | ROOK \<Rightarrow> generate_rook_moves_3d board layer row col
       | QUEEN \<Rightarrow> generate_queen_moves_3d board layer row col
       | KING \<Rightarrow> generate_king_moves_3d board layer row col
       | EMPTY \<Rightarrow> []))"

definition generate_pseudo_legal_moves_3d :: "Board_3d \<Rightarrow> Move_3d list" where
  "generate_pseudo_legal_moves_3d board =
     concat (map (\<lambda>lrc. if color_3d (squares_3d board lrc) = current_player_3d board
                         then generate_moves_for_piece board lrc else []) find_king_scan_3d)"

subsection \<open>Making a move, the legal-move filter, undo\<close>

text \<open>The blocks of the 3D \<open>make_move\<close>, in the order of the source. \<open>moved_piece\<close> and
  \<open>target_square\<close> are read before any block runs.\<close>

definition is_en_passant_capture_3d :: "Board_3d \<Rightarrow> Move_3d \<Rightarrow> bool" where
  "is_en_passant_capture_3d board move \<longleftrightarrow>
     piece_3d (squares_3d board (from_layer move, from_row_3d move, from_col_3d move)) = PAWN
     \<and> to_col_3d move \<noteq> from_col_3d move
     \<and> piece_3d (squares_3d board (to_layer move, to_row_3d move, to_col_3d move)) = EMPTY
     \<and> to_layer move = en_passant_layer board
     \<and> to_row_3d move = en_passant_row_3d board
     \<and> to_col_3d move = en_passant_col_3d board"

definition remove_en_passant_pawn_3d :: "Board_3d \<Rightarrow> Move_3d \<Rightarrow> Board_3d" where
  "remove_en_passant_pawn_3d board move =
    (if is_en_passant_capture_3d board move
     then set_square_3d board (from_layer move, from_row_3d move, to_col_3d move) empty_square_3d
     else board)"

definition castling_rook_move_3d :: "Board_3d \<Rightarrow> Move_3d \<Rightarrow> Square_3d \<Rightarrow> Board_3d" where
  "castling_rook_move_3d board move moved_piece =
    (if piece_3d moved_piece = KING \<and> \<bar>to_col_3d move - from_col_3d move\<bar> = 2
        \<and> from_layer move = 0 \<and> to_layer move = 0 then
       (if to_col_3d move = 6 then
          set_square_3d
            (set_square_3d board (0, from_row_3d move, 5)
               (squares_3d board (0, from_row_3d move, 7)))
            (0, from_row_3d move, 7) empty_square_3d
        else
          set_square_3d
            (set_square_3d board (0, from_row_3d move, 3)
               (squares_3d board (0, from_row_3d move, 0)))
            (0, from_row_3d move, 0) empty_square_3d)
     else board)"

definition move_the_piece_3d :: "Board_3d \<Rightarrow> Move_3d \<Rightarrow> Square_3d \<Rightarrow> Board_3d" where
  "move_the_piece_3d board move moved_piece =
     set_square_3d
       (if promotion_3d move \<noteq> EMPTY
        then set_square_3d board (to_layer move, to_row_3d move, to_col_3d move)
               \<lparr>piece_3d = promotion_3d move, color_3d = color_3d moved_piece\<rparr>
        else set_square_3d board (to_layer move, to_row_3d move, to_col_3d move) moved_piece)
       (from_layer move, from_row_3d move, from_col_3d move) empty_square_3d"

definition update_en_passant_target_3d :: "Board_3d \<Rightarrow> Move_3d \<Rightarrow> Square_3d \<Rightarrow> Board_3d" where
  "update_en_passant_target_3d board move moved_piece =
    (if piece_3d moved_piece = PAWN \<and> \<bar>to_row_3d move - from_row_3d move\<bar> = 2
        \<and> from_layer move = to_layer move
     then board\<lparr>en_passant_layer := from_layer move,
                en_passant_row_3d := (from_row_3d move + to_row_3d move) sdiv 2,
                en_passant_col_3d := from_col_3d move\<rparr>
     else board\<lparr>en_passant_layer := -1, en_passant_row_3d := -1, en_passant_col_3d := -1\<rparr>)"

definition update_mover_rights_3d :: "Board_3d \<Rightarrow> Move_3d \<Rightarrow> Square_3d \<Rightarrow> Board_3d" where
  "update_mover_rights_3d board move moved_piece =
    (if from_layer move = 0 then
       (if piece_3d moved_piece = KING then
          (if color_3d moved_piece = P_WHITE
           then board\<lparr>white_castle_kingside_3d := False, white_castle_queenside_3d := False\<rparr>
           else board\<lparr>black_castle_kingside_3d := False, black_castle_queenside_3d := False\<rparr>)
        else if piece_3d moved_piece = ROOK then
          (if color_3d moved_piece = P_WHITE then
             (let b = (if from_row_3d move = 7 \<and> from_col_3d move = 0
                       then board\<lparr>white_castle_queenside_3d := False\<rparr> else board)
              in if from_row_3d move = 7 \<and> from_col_3d move = 7
                 then b\<lparr>white_castle_kingside_3d := False\<rparr> else b)
           else
             (let b = (if from_row_3d move = 0 \<and> from_col_3d move = 0
                       then board\<lparr>black_castle_queenside_3d := False\<rparr> else board)
              in if from_row_3d move = 0 \<and> from_col_3d move = 7
                 then b\<lparr>black_castle_kingside_3d := False\<rparr> else b))
        else board)
     else board)"

definition update_corner_rights_3d :: "Board_3d \<Rightarrow> Move_3d \<Rightarrow> Board_3d" where
  "update_corner_rights_3d board move =
    (if to_layer move = 0 then
       (let b1 = (if to_row_3d move = 7 \<and> to_col_3d move = 0
                  then board\<lparr>white_castle_queenside_3d := False\<rparr> else board);
            b2 = (if to_row_3d move = 7 \<and> to_col_3d move = 7
                  then b1\<lparr>white_castle_kingside_3d := False\<rparr> else b1);
            b3 = (if to_row_3d move = 0 \<and> to_col_3d move = 0
                  then b2\<lparr>black_castle_queenside_3d := False\<rparr> else b2)
        in if to_row_3d move = 0 \<and> to_col_3d move = 7
           then b3\<lparr>black_castle_kingside_3d := False\<rparr> else b3)
     else board)"

definition update_halfmove_clock_3d :: "Board_3d \<Rightarrow> bool \<Rightarrow> Board_3d" where
  "update_halfmove_clock_3d board reset =
    (if reset then board\<lparr>halfmove_clock_3d := 0\<rparr>
     else board\<lparr>halfmove_clock_3d := halfmove_clock_3d board + 1\<rparr>)"

definition update_fullmove_number_3d :: "Board_3d \<Rightarrow> Board_3d" where
  "update_fullmove_number_3d board =
    (if current_player_3d board = P_BLACK
     then board\<lparr>fullmove_number_3d := fullmove_number_3d board + 1\<rparr>
     else board)"

definition switch_player_3d :: "Board_3d \<Rightarrow> Board_3d" where
  "switch_player_3d board =
     board\<lparr>current_player_3d := (if current_player_3d board = P_WHITE then P_BLACK else P_WHITE)\<rparr>"

definition make_move_3d :: "Board_3d \<Rightarrow> Move_3d \<Rightarrow> Board_3d" where
  "make_move_3d board0 move =
    (let moved_piece = squares_3d board0 (from_layer move, from_row_3d move, from_col_3d move);
         target_square = squares_3d board0 (to_layer move, to_row_3d move, to_col_3d move);
         is_en_passant_capture = is_en_passant_capture_3d board0 move;
         board1 = remove_en_passant_pawn_3d board0 move;
         board2 = castling_rook_move_3d board1 move moved_piece;
         board3 = move_the_piece_3d board2 move moved_piece;
         board4 = update_en_passant_target_3d board3 move moved_piece;
         board5 = update_mover_rights_3d board4 move moved_piece;
         board6 = update_corner_rights_3d board5 move;
         board7 = update_halfmove_clock_3d board6
                    (piece_3d moved_piece = PAWN \<or> piece_3d target_square \<noteq> EMPTY
                     \<or> is_en_passant_capture);
         board8 = update_fullmove_number_3d board7
     in switch_player_3d board8)"

text \<open>\<open>undo_move\<close> of the 3D program. Both branches of its \<open>if (move->is_capture)\<close>
  empty the destination square.\<close>

definition undo_move_3d :: "Board_3d \<Rightarrow> Move_3d \<Rightarrow> Board_3d" where
  "undo_move_3d board0 move =
    (let moved_piece = squares_3d board0 (to_layer move, to_row_3d move, to_col_3d move);
         board1 = set_square_3d board0 (from_layer move, from_row_3d move, from_col_3d move)
                    moved_piece;
         board2 = (if is_capture move
                   then set_square_3d board1 (to_layer move, to_row_3d move, to_col_3d move)
                          empty_square_3d
                   else set_square_3d board1 (to_layer move, to_row_3d move, to_col_3d move)
                          empty_square_3d)
     in board2\<lparr>current_player_3d :=
                 (if current_player_3d board2 = P_WHITE then P_BLACK else P_WHITE)\<rparr>)"

text \<open>The statements that the 3D program writes out after each simulated move, in
  \<open>generate_legal_moves\<close> and in the search: the piece found on the destination goes
  back to the origin, the destination gets the square saved before the move, and the
  player is reset. Nothing else is restored.\<close>

definition inline_undo_3d :: "Board_3d \<Rightarrow> Move_3d \<Rightarrow> Square_3d \<Rightarrow> PieceColor \<Rightarrow> Board_3d" where
  "inline_undo_3d board0 move captured_square original_player =
    (let moved_piece = squares_3d board0 (to_layer move, to_row_3d move, to_col_3d move);
         board1 = set_square_3d board0 (from_layer move, from_row_3d move, from_col_3d move)
                    moved_piece;
         board2 = set_square_3d board1 (to_layer move, to_row_3d move, to_col_3d move)
                    captured_square
     in board2\<lparr>current_player_3d := original_player\<rparr>)"

text \<open>One iteration of the loop of the 3D \<open>generate_legal_moves\<close>, which works on the
  caller's board: the board after the iteration, and whether the candidate is kept.\<close>

definition legal_step_3d :: "Board_3d \<Rightarrow> PieceColor \<Rightarrow> Move_3d \<Rightarrow> Board_3d \<times> bool" where
  "legal_step_3d board player m =
    (let captured_square = squares_3d board (to_layer m, to_row_3d m, to_col_3d m);
         made = make_move_3d board m
     in (inline_undo_3d made m captured_square player, \<not> is_king_in_check_3d made player))"

fun legal_loop_3d :: "Board_3d \<Rightarrow> PieceColor \<Rightarrow> Move_3d list \<Rightarrow> Board_3d \<times> Move_3d list" where
  "legal_loop_3d board player [] = (board, [])"
| "legal_loop_3d board player (m # ms) =
    (case legal_step_3d board player m of
       (board', keep) \<Rightarrow>
         (case legal_loop_3d board' player ms of
            (board'', kept) \<Rightarrow> (board'', (if keep then [m] else []) @ kept)))"

text \<open>The board the caller holds after the call, and the legal moves.\<close>

definition generate_legal_moves_3d :: "Board_3d \<Rightarrow> Board_3d \<times> Move_3d list" where
  "generate_legal_moves_3d board =
     legal_loop_3d board (current_player_3d board) (generate_pseudo_legal_moves_3d board)"

definition legal_keep_3d :: "bool \<Rightarrow> Move_3d \<Rightarrow> Board_3d \<times> Move_3d list \<Rightarrow> Board_3d \<times> Move_3d list" where
  "legal_keep_3d keep m r = (fst r, (if keep then [m] else []) @ snd r)"

definition legal_after_3d ::
  "Board_3d \<times> bool \<Rightarrow> PieceColor \<Rightarrow> Move_3d \<Rightarrow> Move_3d list \<Rightarrow> Board_3d \<times> Move_3d list" where
  "legal_after_3d st player m ms = legal_keep_3d (snd st) m (legal_loop_3d (fst st) player ms)"

subsection \<open>Evaluation, game over, search\<close>

text \<open>The 3D program's table \<open>piece_values\<close> has the entries of the 2D program's.\<close>

definition square_value_3d :: "Board_3d \<Rightarrow> int \<times> int \<times> int \<Rightarrow> int" where
  "square_value_3d board lrc =
    (case lrc of (layer, row, col) \<Rightarrow>
      (let current_square = squares_3d board lrc in
       if piece_3d current_square \<noteq> EMPTY then
         (let value = piece_values (piece_3d current_square)
                + (if (row \<ge> 2 \<and> row \<le> 5) \<and> (col \<ge> 2 \<and> col \<le> 5) then 10 else 0)
                + layer * 15
          in if color_3d current_square = P_WHITE then value else - value)
       else 0))"

definition evaluate_board_3d :: "Board_3d \<Rightarrow> int" where
  "evaluate_board_3d board = sum_list (map (square_value_3d board) find_king_scan_3d)"

definition is_game_over_3d :: "Board_3d \<Rightarrow> Board_3d \<times> bool" where
  "is_game_over_3d board =
     (case generate_legal_moves_3d board of (board', legal_moves) \<Rightarrow> (board', legal_moves = []))"

text \<open>The two loops of the 3D \<open>minimax\<close>, over the remaining moves, with the recursive
  call passed in as \<open>search\<close>. Each returns the board after the loop and the value.\<close>

fun max_loop_3d ::
  "(Board_3d \<Rightarrow> int \<Rightarrow> int \<Rightarrow> (Board_3d \<times> int) option) \<Rightarrow> Board_3d \<Rightarrow> Move_3d list
     \<Rightarrow> int \<Rightarrow> int \<Rightarrow> int \<Rightarrow> (Board_3d \<times> int) option" where
  "max_loop_3d search board [] alpha beta max_eval = Some (board, max_eval)"
| "max_loop_3d search board (m # ms) alpha beta max_eval =
    (let captured_square = squares_3d board (to_layer m, to_row_3d m, to_col_3d m);
         original_player = current_player_3d board
     in case search (make_move_3d board m) alpha beta of
          None \<Rightarrow> None
        | Some (board', eval) \<Rightarrow>
            (let max_eval' = (if eval > max_eval then eval else max_eval);
                 alpha' = (if alpha > eval then alpha else eval);
                 board'' = inline_undo_3d board' m captured_square original_player
             in if beta \<le> alpha' then Some (board'', max_eval')
                else max_loop_3d search board'' ms alpha' beta max_eval'))"

fun min_loop_3d ::
  "(Board_3d \<Rightarrow> int \<Rightarrow> int \<Rightarrow> (Board_3d \<times> int) option) \<Rightarrow> Board_3d \<Rightarrow> Move_3d list
     \<Rightarrow> int \<Rightarrow> int \<Rightarrow> int \<Rightarrow> (Board_3d \<times> int) option" where
  "min_loop_3d search board [] alpha beta min_eval = Some (board, min_eval)"
| "min_loop_3d search board (m # ms) alpha beta min_eval =
    (let captured_square = squares_3d board (to_layer m, to_row_3d m, to_col_3d m);
         original_player = current_player_3d board
     in case search (make_move_3d board m) alpha beta of
          None \<Rightarrow> None
        | Some (board', eval) \<Rightarrow>
            (let min_eval' = (if eval < min_eval then eval else min_eval);
                 beta' = (if beta < eval then beta else eval);
                 board'' = inline_undo_3d board' m captured_square original_player
             in if beta' \<le> alpha then Some (board'', min_eval')
                else min_loop_3d search board'' ms alpha beta' min_eval'))"

text \<open>\<open>minimax\<close> of the 3D program, with a bound on the depth of the recursion as first
  argument (\<open>None\<close> when the bound is reached): the C function recurses on \<open>depth - 1\<close>
  and stops at \<open>depth == 0\<close> or when the game is over, so a call with a negative depth
  has no bound of its own. The result is the board the caller holds afterwards and the
  value returned.\<close>

fun minimax_3d ::
  "nat \<Rightarrow> Board_3d \<Rightarrow> int \<Rightarrow> int \<Rightarrow> int \<Rightarrow> bool \<Rightarrow> (Board_3d \<times> int) option" where
  "minimax_3d 0 board depth alpha beta maximizing_player = None"
| "minimax_3d (Suc fuel) board depth alpha beta maximizing_player =
    (if depth = 0 then Some (board, evaluate_board_3d board)
     else
       (case is_game_over_3d board of
          (board1, True) \<Rightarrow> Some (board1, evaluate_board_3d board1)
        | (board1, False) \<Rightarrow>
            (case generate_legal_moves_3d board1 of
               (board2, legal_moves) \<Rightarrow>
                 if legal_moves = [] then
                   (if is_king_in_check_3d board2 (current_player_3d board2)
                    then Some (board2, if maximizing_player then - INFINITY else INFINITY)
                    else Some (board2, 0))
                 else if maximizing_player then
                   max_loop_3d (\<lambda>b a be. minimax_3d fuel b (depth - 1) a be False)
                     board2 legal_moves alpha beta (- INFINITY)
                 else
                   min_loop_3d (\<lambda>b a be. minimax_3d fuel b (depth - 1) a be True)
                     board2 legal_moves alpha beta INFINITY)))"

subsection \<open>The expressions of the castling block by name\<close>

text \<open>The home row of a colour's king (\<open>king_row\<close>), the attacker colour
  (\<open>opponent_color\<close>) and the two flags that \<open>can_castle_kingside\<close> and
  \<open>can_castle_queenside\<close> read, as functions of the colour, for stating properties of
  the castling block.\<close>

definition home_row_3d :: "PieceColor \<Rightarrow> int" where
  "home_row_3d k = (if k = P_WHITE then 7 else 0)"

definition opponent_3d :: "PieceColor \<Rightarrow> PieceColor" where
  "opponent_3d k = (if k = P_WHITE then P_BLACK else P_WHITE)"

definition castle_kingside_right_3d :: "Board_3d \<Rightarrow> PieceColor \<Rightarrow> bool" where
  "castle_kingside_right_3d board k =
     (if k = P_WHITE then white_castle_kingside_3d board else black_castle_kingside_3d board)"

definition castle_queenside_right_3d :: "Board_3d \<Rightarrow> PieceColor \<Rightarrow> bool" where
  "castle_queenside_right_3d board k =
     (if k = P_WHITE then white_castle_queenside_3d board else black_castle_queenside_3d board)"

text \<open>The origin of a move as an index triple.\<close>

definition from_3d :: "Move_3d \<Rightarrow> int \<times> int \<times> int" where
  "from_3d m = (from_layer m, from_row_3d m, from_col_3d m)"

section \<open>Example positions\<close>

text \<open>A 2D position in which White could castle on either side under the rules of chess:
  king on e1, rooks on a1 and h1, nothing between them, all four flags set, no black
  piece but the king on e8.\<close>

definition castle_ready :: Board where
  "castle_ready = init_board\<lparr>squares := (\<lambda>rc.
      if rc = (7, 4) then \<lparr>piece = KING, color = PLAYER_WHITE\<rparr>
      else if rc = (7, 0) \<or> rc = (7, 7) then \<lparr>piece = ROOK, color = PLAYER_WHITE\<rparr>
      else if rc = (0, 4) then \<lparr>piece = KING, color = PLAYER_BLACK\<rparr>
      else empty_square)\<rparr>"

definition king_step_e1f1 :: Move where
  "king_step_e1f1 = take_snapshot castle_ready (new_move 7 4 7 5 EMPTY EMPTY NONE)"

definition double_push_a2a4 :: Move where
  "double_push_a2a4 = new_move 6 0 4 0 EMPTY EMPTY NONE"

definition double_push_3d :: Move_3d where
  "double_push_3d = new_move_3d 2 6 0 2 4 0 EMPTY False"

text \<open>A 2D board with the white king alone, and a 3D board with the white king alone.\<close>

definition lone_white_king :: Board where
  "lone_white_king = init_board\<lparr>squares := (\<lambda>rc.
      if rc = (7, 4) then \<lparr>piece = KING, color = PLAYER_WHITE\<rparr> else empty_square)\<rparr>"

definition lone_white_king_3d :: Board_3d where
  "lone_white_king_3d = init_board_3d\<lparr>squares_3d := (\<lambda>lrc.
      if lrc = (2, 7, 4) then \<lparr>piece_3d = KING, color_3d = P_WHITE\<rparr> else empty_square_3d)\<rparr>"

text \<open>A 3D position late in a game: the white king in the corner a1 of layer 0 next to
  an unprotected black knight on b2, the black king far away on layer 2, White to move,
  no castling rights left, 100 plies since the last capture or pawn move.\<close>

definition corner_position_3d :: Board_3d where
  "corner_position_3d =
    \<lparr>squares_3d = (\<lambda>lrc.
        if lrc = (0, 7, 0) then \<lparr>piece_3d = KING, color_3d = P_WHITE\<rparr>
        else if lrc = (0, 6, 1) then \<lparr>piece_3d = KNIGHT, color_3d = P_BLACK\<rparr>
        else if lrc = (2, 0, 7) then \<lparr>piece_3d = KING, color_3d = P_BLACK\<rparr>
        else empty_square_3d),
     current_player_3d = P_WHITE,
     white_castle_kingside_3d = False,
     white_castle_queenside_3d = False,
     black_castle_kingside_3d = False,
     black_castle_queenside_3d = False,
     en_passant_layer = -1,
     en_passant_row_3d = -1,
     en_passant_col_3d = -1,
     halfmove_clock_3d = 100,
     fullmove_number_3d = 80\<rparr>"

definition king_takes_knight_3d :: Move_3d where
  "king_takes_knight_3d = new_move_3d 0 7 0 0 6 1 EMPTY True"

text \<open>A 3D position right after Black's double push b7-b5 on layer 0 (rows 1 to 3 of
  column 1): the pawn gives check to the white king on a4, and the white pawn on c5 can
  take it en passant on b6, the en-passant target.\<close>

definition en_passant_check_3d :: Board_3d where
  "en_passant_check_3d =
    \<lparr>squares_3d = (\<lambda>lrc.
        if lrc = (0, 4, 0) then \<lparr>piece_3d = KING, color_3d = P_WHITE\<rparr>
        else if lrc = (0, 3, 2) then \<lparr>piece_3d = PAWN, color_3d = P_WHITE\<rparr>
        else if lrc = (0, 3, 1) then \<lparr>piece_3d = PAWN, color_3d = P_BLACK\<rparr>
        else if lrc = (2, 0, 7) then \<lparr>piece_3d = KING, color_3d = P_BLACK\<rparr>
        else empty_square_3d),
     current_player_3d = P_WHITE,
     white_castle_kingside_3d = False,
     white_castle_queenside_3d = False,
     black_castle_kingside_3d = False,
     black_castle_queenside_3d = False,
     en_passant_layer = 0,
     en_passant_row_3d = 2,
     en_passant_col_3d = 1,
     halfmove_clock_3d = 0,
     fullmove_number_3d = 30\<rparr>"

definition en_passant_capture_3d :: Move_3d where
  "en_passant_capture_3d = new_move_3d 0 3 2 0 2 1 EMPTY True"

text \<open>A 3D position in which White is checkmated: the white king in the corner of layer
  0, five black queens covering the king's square and its seven neighbours.\<close>

definition mate_3d :: Board_3d where
  "mate_3d =
    \<lparr>squares_3d = (\<lambda>lrc.
        if lrc = (0, 0, 0) then \<lparr>piece_3d = KING, color_3d = P_WHITE\<rparr>
        else if lrc = (2, 2, 2) \<or> lrc = (0, 5, 1) \<or> lrc = (0, 1, 5) \<or> lrc = (1, 0, 5)
                \<or> lrc = (1, 5, 0)
          then \<lparr>piece_3d = QUEEN, color_3d = P_BLACK\<rparr>
        else if lrc = (2, 7, 7) then \<lparr>piece_3d = KING, color_3d = P_BLACK\<rparr>
        else empty_square_3d),
     current_player_3d = P_WHITE,
     white_castle_kingside_3d = False,
     white_castle_queenside_3d = False,
     black_castle_kingside_3d = False,
     black_castle_queenside_3d = False,
     en_passant_layer = -1,
     en_passant_row_3d = -1,
     en_passant_col_3d = -1,
     halfmove_clock_3d = 3,
     fullmove_number_3d = 40\<rparr>"

text \<open>The initial 3D position with Black's bishop and knight on the king's side of layer
  0 taken off and Black to move: Black may castle kingside.\<close>

definition black_castle_ready_3d :: Board_3d where
  "black_castle_ready_3d = init_board_3d
     \<lparr>squares_3d := (squares_3d init_board_3d)
        ((0, 0, 5) := empty_square_3d, (0, 0, 6) := empty_square_3d),
      current_player_3d := P_BLACK\<rparr>"

definition black_castles_kingside_3d :: Move_3d where
  "black_castles_kingside_3d = new_move_3d 0 0 4 0 0 6 EMPTY False"

section \<open>Well-formed and reachable 2D positions\<close>

text \<open>The invariants of the data model that the 2D make/undo pair relies on: on the
  board a square has no piece exactly when it has no colour; the side to move is White
  or Black; and an en-passant target that lies on the board is an empty square right
  behind a pawn of the side that has just moved.\<close>

definition squares_consistent :: "Board \<Rightarrow> bool" where
  "squares_consistent board \<longleftrightarrow>
     (\<forall>r c. is_valid_position r c \<longrightarrow>
        (piece (squares board (r, c)) = EMPTY \<longleftrightarrow> color (squares board (r, c)) = NONE))"

definition opponent :: "PlayerColor \<Rightarrow> PlayerColor" where
  "opponent k = (if k = PLAYER_WHITE then PLAYER_BLACK else PLAYER_WHITE)"

definition en_passant_consistent :: "Board \<Rightarrow> bool" where
  "en_passant_consistent board \<longleftrightarrow>
     (is_valid_position (en_passant_row board) (en_passant_col board) \<longrightarrow>
        piece (squares board (en_passant_row board, en_passant_col board)) = EMPTY
        \<and> squares board
             (en_passant_row board + (if current_player board = PLAYER_WHITE then 1 else -1),
              en_passant_col board)
            = \<lparr>piece = PAWN, color = opponent (current_player board)\<rparr>)"

definition well_formed :: "Board \<Rightarrow> bool" where
  "well_formed board \<longleftrightarrow>
     squares_consistent board \<and> current_player board \<noteq> NONE \<and> en_passant_consistent board"

text \<open>The positions of a game: the initial position, and every position that
  \<open>make_move\<close> produces from a position of a game and one of its legal moves.\<close>

inductive reachable :: "Board \<Rightarrow> bool" where
  initial: "reachable init_board"
| move: "reachable board \<Longrightarrow> m \<in> set (generate_legal_moves board)
           \<Longrightarrow> reachable (fst (make_move board m))"

text \<open>What the generators record about the destination of a move: either the piece and
  colour found there (for an empty destination the generators for pawn pushes and
  sliding pieces write \<open>EMPTY\<close> and \<open>NONE\<close> without reading the colour), or the
  en-passant marking.\<close>

definition records_destination :: "Board \<Rightarrow> Move \<Rightarrow> bool" where
  "records_destination board m \<longleftrightarrow>
     captured_piece (previous_state m) = piece (squares board (to_row m, to_col m))
     \<and> (captured_color (previous_state m) = color (squares board (to_row m, to_col m))
        \<or> piece (squares board (to_row m, to_col m)) = EMPTY
          \<and> captured_color (previous_state m) = NONE)"

definition records_en_passant :: "Board \<Rightarrow> Move \<Rightarrow> bool" where
  "records_en_passant board m \<longleftrightarrow>
     piece (squares board (from_row m, from_col m)) = PAWN
     \<and> to_row m = en_passant_row board \<and> to_col m = en_passant_col board
     \<and> piece (squares board (to_row m, to_col m)) = EMPTY
     \<and> captured_piece (previous_state m) = PAWN
     \<and> captured_color (previous_state m) = pawn_opponent_color board (from_row m) (from_col m)
     \<and> to_row m = from_row m + pawn_direction board (from_row m) (from_col m)
     \<and> to_col m \<noteq> from_col m
     \<and> promotion m = EMPTY"

definition generated_shape :: "Board \<Rightarrow> Move \<Rightarrow> bool" where
  "generated_shape board m \<longleftrightarrow>
     is_valid_position (from_row m) (from_col m)
     \<and> is_valid_position (to_row m) (to_col m)
     \<and> piece (squares board (from_row m, from_col m)) \<noteq> EMPTY
     \<and> color (squares board (from_row m, from_col m)) = current_player board
     \<and> (piece (squares board (to_row m, to_col m)) = EMPTY
        \<or> color (squares board (to_row m, to_col m))
            \<noteq> color (squares board (from_row m, from_col m)))
     \<and> (promotion m \<noteq> EMPTY \<longrightarrow> piece (squares board (from_row m, from_col m)) = PAWN)
     \<and> (piece (squares board (from_row m, from_col m)) = KING
          \<longrightarrow> \<bar>to_col m - from_col m\<bar> \<le> 1)
     \<and> (piece (squares board (from_row m, from_col m)) = PAWN
          \<and> \<bar>to_row m - from_row m\<bar> = 2
          \<longrightarrow> to_col m = from_col m
              \<and> to_row m = from_row m + 2 * pawn_direction board (from_row m) (from_col m)
              \<and> is_valid_position
                   (from_row m + pawn_direction board (from_row m) (from_col m)) (from_col m)
              \<and> piece (squares board
                   (from_row m + pawn_direction board (from_row m) (from_col m), from_col m))
                  = EMPTY
              \<and> promotion m = EMPTY)
     \<and> (piece (squares board (from_row m, from_col m)) = PAWN
          \<longrightarrow> \<bar>to_row m - from_row m\<bar> \<le> 2)
     \<and> (records_destination board m \<or> records_en_passant board m)"

subsection \<open>What each block of make and undo leaves alone\<close>

lemma castling_rook_move_frame [simp]:
  "current_player (castling_rook_move b m p k) = current_player b"
  "en_passant_row (castling_rook_move b m p k) = en_passant_row b"
  "en_passant_col (castling_rook_move b m p k) = en_passant_col b"
  "halfmove_clock (castling_rook_move b m p k) = halfmove_clock b"
  "fullmove_number (castling_rook_move b m p k) = fullmove_number b"
  by (simp_all add: castling_rook_move_def Let_def set_square_def)

lemma remove_en_passant_pawn_frame [simp]:
  "current_player (remove_en_passant_pawn b m p) = current_player b"
  "white_castle_kingside (remove_en_passant_pawn b m p) = white_castle_kingside b"
  "white_castle_queenside (remove_en_passant_pawn b m p) = white_castle_queenside b"
  "black_castle_kingside (remove_en_passant_pawn b m p) = black_castle_kingside b"
  "black_castle_queenside (remove_en_passant_pawn b m p) = black_castle_queenside b"
  "en_passant_row (remove_en_passant_pawn b m p) = en_passant_row b"
  "en_passant_col (remove_en_passant_pawn b m p) = en_passant_col b"
  "halfmove_clock (remove_en_passant_pawn b m p) = halfmove_clock b"
  "fullmove_number (remove_en_passant_pawn b m p) = fullmove_number b"
  by (simp_all add: remove_en_passant_pawn_def Let_def set_square_def)

lemma move_the_piece_frame [simp]:
  "current_player (move_the_piece b m p k) = current_player b"
  "white_castle_kingside (move_the_piece b m p k) = white_castle_kingside b"
  "white_castle_queenside (move_the_piece b m p k) = white_castle_queenside b"
  "black_castle_kingside (move_the_piece b m p k) = black_castle_kingside b"
  "black_castle_queenside (move_the_piece b m p k) = black_castle_queenside b"
  "en_passant_row (move_the_piece b m p k) = en_passant_row b"
  "en_passant_col (move_the_piece b m p k) = en_passant_col b"
  "halfmove_clock (move_the_piece b m p k) = halfmove_clock b"
  "fullmove_number (move_the_piece b m p k) = fullmove_number b"
  by (simp_all add: move_the_piece_def Let_def set_square_def)

lemma update_en_passant_target_frame [simp]:
  "squares (update_en_passant_target b m p) = squares b"
  "current_player (update_en_passant_target b m p) = current_player b"
  "white_castle_kingside (update_en_passant_target b m p) = white_castle_kingside b"
  "white_castle_queenside (update_en_passant_target b m p) = white_castle_queenside b"
  "black_castle_kingside (update_en_passant_target b m p) = black_castle_kingside b"
  "black_castle_queenside (update_en_passant_target b m p) = black_castle_queenside b"
  "halfmove_clock (update_en_passant_target b m p) = halfmove_clock b"
  "fullmove_number (update_en_passant_target b m p) = fullmove_number b"
  by (simp_all add: update_en_passant_target_def Let_def set_square_def)

lemma update_rook_rights_frame [simp]:
  "squares (update_rook_rights b m p k) = squares b"
  "current_player (update_rook_rights b m p k) = current_player b"
  "en_passant_row (update_rook_rights b m p k) = en_passant_row b"
  "en_passant_col (update_rook_rights b m p k) = en_passant_col b"
  "halfmove_clock (update_rook_rights b m p k) = halfmove_clock b"
  "fullmove_number (update_rook_rights b m p k) = fullmove_number b"
  by (simp_all add: update_rook_rights_def Let_def set_square_def)

lemma update_captured_rook_rights_frame [simp]:
  "squares (update_captured_rook_rights b m) = squares b"
  "current_player (update_captured_rook_rights b m) = current_player b"
  "en_passant_row (update_captured_rook_rights b m) = en_passant_row b"
  "en_passant_col (update_captured_rook_rights b m) = en_passant_col b"
  "halfmove_clock (update_captured_rook_rights b m) = halfmove_clock b"
  "fullmove_number (update_captured_rook_rights b m) = fullmove_number b"
  by (simp_all add: update_captured_rook_rights_def Let_def set_square_def)

lemma update_halfmove_clock_frame [simp]:
  "squares (update_halfmove_clock b p c) = squares b"
  "current_player (update_halfmove_clock b p c) = current_player b"
  "white_castle_kingside (update_halfmove_clock b p c) = white_castle_kingside b"
  "white_castle_queenside (update_halfmove_clock b p c) = white_castle_queenside b"
  "black_castle_kingside (update_halfmove_clock b p c) = black_castle_kingside b"
  "black_castle_queenside (update_halfmove_clock b p c) = black_castle_queenside b"
  "en_passant_row (update_halfmove_clock b p c) = en_passant_row b"
  "en_passant_col (update_halfmove_clock b p c) = en_passant_col b"
  "fullmove_number (update_halfmove_clock b p c) = fullmove_number b"
  by (simp_all add: update_halfmove_clock_def Let_def set_square_def)

lemma update_fullmove_number_frame [simp]:
  "squares (update_fullmove_number b) = squares b"
  "current_player (update_fullmove_number b) = current_player b"
  "white_castle_kingside (update_fullmove_number b) = white_castle_kingside b"
  "white_castle_queenside (update_fullmove_number b) = white_castle_queenside b"
  "black_castle_kingside (update_fullmove_number b) = black_castle_kingside b"
  "black_castle_queenside (update_fullmove_number b) = black_castle_queenside b"
  "en_passant_row (update_fullmove_number b) = en_passant_row b"
  "en_passant_col (update_fullmove_number b) = en_passant_col b"
  "halfmove_clock (update_fullmove_number b) = halfmove_clock b"
  by (simp_all add: update_fullmove_number_def Let_def set_square_def)

lemma switch_player_frame [simp]:
  "squares (switch_player b k) = squares b"
  "white_castle_kingside (switch_player b k) = white_castle_kingside b"
  "white_castle_queenside (switch_player b k) = white_castle_queenside b"
  "black_castle_kingside (switch_player b k) = black_castle_kingside b"
  "black_castle_queenside (switch_player b k) = black_castle_queenside b"
  "en_passant_row (switch_player b k) = en_passant_row b"
  "en_passant_col (switch_player b k) = en_passant_col b"
  "halfmove_clock (switch_player b k) = halfmove_clock b"
  "fullmove_number (switch_player b k) = fullmove_number b"
  by (simp_all add: switch_player_def Let_def set_square_def)

lemma restore_flags_frame [simp]:
  "squares (restore_flags b m) = squares b"
  "current_player (restore_flags b m) = current_player b"
  "fullmove_number (restore_flags b m) = fullmove_number b"
  by (simp_all add: restore_flags_def Let_def set_square_def)

lemma restore_origin_frame [simp]:
  "current_player (restore_origin b m p k) = current_player b"
  "white_castle_kingside (restore_origin b m p k) = white_castle_kingside b"
  "white_castle_queenside (restore_origin b m p k) = white_castle_queenside b"
  "black_castle_kingside (restore_origin b m p k) = black_castle_kingside b"
  "black_castle_queenside (restore_origin b m p k) = black_castle_queenside b"
  "en_passant_row (restore_origin b m p k) = en_passant_row b"
  "en_passant_col (restore_origin b m p k) = en_passant_col b"
  "halfmove_clock (restore_origin b m p k) = halfmove_clock b"
  "fullmove_number (restore_origin b m p k) = fullmove_number b"
  by (simp_all add: restore_origin_def Let_def set_square_def)

lemma restore_destination_frame [simp]:
  "current_player (restore_destination b m p) = current_player b"
  "white_castle_kingside (restore_destination b m p) = white_castle_kingside b"
  "white_castle_queenside (restore_destination b m p) = white_castle_queenside b"
  "black_castle_kingside (restore_destination b m p) = black_castle_kingside b"
  "black_castle_queenside (restore_destination b m p) = black_castle_queenside b"
  "en_passant_row (restore_destination b m p) = en_passant_row b"
  "en_passant_col (restore_destination b m p) = en_passant_col b"
  "halfmove_clock (restore_destination b m p) = halfmove_clock b"
  "fullmove_number (restore_destination b m p) = fullmove_number b"
  by (simp_all add: restore_destination_def Let_def set_square_def)

lemma undo_castling_rook_frame [simp]:
  "current_player (undo_castling_rook b m p) = current_player b"
  "white_castle_kingside (undo_castling_rook b m p) = white_castle_kingside b"
  "white_castle_queenside (undo_castling_rook b m p) = white_castle_queenside b"
  "black_castle_kingside (undo_castling_rook b m p) = black_castle_kingside b"
  "black_castle_queenside (undo_castling_rook b m p) = black_castle_queenside b"
  "en_passant_row (undo_castling_rook b m p) = en_passant_row b"
  "en_passant_col (undo_castling_rook b m p) = en_passant_col b"
  "halfmove_clock (undo_castling_rook b m p) = halfmove_clock b"
  "fullmove_number (undo_castling_rook b m p) = fullmove_number b"
  by (simp_all add: undo_castling_rook_def Let_def set_square_def)

lemma restore_fullmove_number_frame [simp]:
  "squares (restore_fullmove_number b) = squares b"
  "current_player (restore_fullmove_number b) = current_player b"
  "white_castle_kingside (restore_fullmove_number b) = white_castle_kingside b"
  "white_castle_queenside (restore_fullmove_number b) = white_castle_queenside b"
  "black_castle_kingside (restore_fullmove_number b) = black_castle_kingside b"
  "black_castle_queenside (restore_fullmove_number b) = black_castle_queenside b"
  "en_passant_row (restore_fullmove_number b) = en_passant_row b"
  "en_passant_col (restore_fullmove_number b) = en_passant_col b"
  "halfmove_clock (restore_fullmove_number b) = halfmove_clock b"
  by (simp_all add: restore_fullmove_number_def Let_def set_square_def)

lemma remove_en_passant_pawn_3d_frame [simp]:
  "current_player_3d (remove_en_passant_pawn_3d b m) = current_player_3d b"
  "white_castle_kingside_3d (remove_en_passant_pawn_3d b m) = white_castle_kingside_3d b"
  "white_castle_queenside_3d (remove_en_passant_pawn_3d b m) = white_castle_queenside_3d b"
  "black_castle_kingside_3d (remove_en_passant_pawn_3d b m) = black_castle_kingside_3d b"
  "black_castle_queenside_3d (remove_en_passant_pawn_3d b m) = black_castle_queenside_3d b"
  "en_passant_layer (remove_en_passant_pawn_3d b m) = en_passant_layer b"
  "en_passant_row_3d (remove_en_passant_pawn_3d b m) = en_passant_row_3d b"
  "en_passant_col_3d (remove_en_passant_pawn_3d b m) = en_passant_col_3d b"
  "halfmove_clock_3d (remove_en_passant_pawn_3d b m) = halfmove_clock_3d b"
  "fullmove_number_3d (remove_en_passant_pawn_3d b m) = fullmove_number_3d b"
  by (simp_all add: remove_en_passant_pawn_3d_def Let_def set_square_3d_def)

lemma castling_rook_move_3d_frame [simp]:
  "current_player_3d (castling_rook_move_3d b m p) = current_player_3d b"
  "white_castle_kingside_3d (castling_rook_move_3d b m p) = white_castle_kingside_3d b"
  "white_castle_queenside_3d (castling_rook_move_3d b m p) = white_castle_queenside_3d b"
  "black_castle_kingside_3d (castling_rook_move_3d b m p) = black_castle_kingside_3d b"
  "black_castle_queenside_3d (castling_rook_move_3d b m p) = black_castle_queenside_3d b"
  "en_passant_layer (castling_rook_move_3d b m p) = en_passant_layer b"
  "en_passant_row_3d (castling_rook_move_3d b m p) = en_passant_row_3d b"
  "en_passant_col_3d (castling_rook_move_3d b m p) = en_passant_col_3d b"
  "halfmove_clock_3d (castling_rook_move_3d b m p) = halfmove_clock_3d b"
  "fullmove_number_3d (castling_rook_move_3d b m p) = fullmove_number_3d b"
  by (simp_all add: castling_rook_move_3d_def Let_def set_square_3d_def)

lemma move_the_piece_3d_frame [simp]:
  "current_player_3d (move_the_piece_3d b m p) = current_player_3d b"
  "white_castle_kingside_3d (move_the_piece_3d b m p) = white_castle_kingside_3d b"
  "white_castle_queenside_3d (move_the_piece_3d b m p) = white_castle_queenside_3d b"
  "black_castle_kingside_3d (move_the_piece_3d b m p) = black_castle_kingside_3d b"
  "black_castle_queenside_3d (move_the_piece_3d b m p) = black_castle_queenside_3d b"
  "en_passant_layer (move_the_piece_3d b m p) = en_passant_layer b"
  "en_passant_row_3d (move_the_piece_3d b m p) = en_passant_row_3d b"
  "en_passant_col_3d (move_the_piece_3d b m p) = en_passant_col_3d b"
  "halfmove_clock_3d (move_the_piece_3d b m p) = halfmove_clock_3d b"
  "fullmove_number_3d (move_the_piece_3d b m p) = fullmove_number_3d b"
  by (simp_all add: move_the_piece_3d_def Let_def set_square_3d_def)

lemma update_en_passant_target_3d_frame [simp]:
  "squares_3d (update_en_passant_target_3d b m p) = squares_3d b"
  "current_player_3d (update_en_passant_target_3d b m p) = current_player_3d b"
  "white_castle_kingside_3d (update_en_passant_target_3d b m p) = white_castle_kingside_3d b"
  "white_castle_queenside_3d (update_en_passant_target_3d b m p) = white_castle_queenside_3d b"
  "black_castle_kingside_3d (update_en_passant_target_3d b m p) = black_castle_kingside_3d b"
  "black_castle_queenside_3d (update_en_passant_target_3d b m p) = black_castle_queenside_3d b"
  "halfmove_clock_3d (update_en_passant_target_3d b m p) = halfmove_clock_3d b"
  "fullmove_number_3d (update_en_passant_target_3d b m p) = fullmove_number_3d b"
  by (simp_all add: update_en_passant_target_3d_def Let_def set_square_3d_def)

lemma update_mover_rights_3d_frame [simp]:
  "squares_3d (update_mover_rights_3d b m p) = squares_3d b"
  "current_player_3d (update_mover_rights_3d b m p) = current_player_3d b"
  "en_passant_layer (update_mover_rights_3d b m p) = en_passant_layer b"
  "en_passant_row_3d (update_mover_rights_3d b m p) = en_passant_row_3d b"
  "en_passant_col_3d (update_mover_rights_3d b m p) = en_passant_col_3d b"
  "halfmove_clock_3d (update_mover_rights_3d b m p) = halfmove_clock_3d b"
  "fullmove_number_3d (update_mover_rights_3d b m p) = fullmove_number_3d b"
  by (simp_all add: update_mover_rights_3d_def Let_def set_square_3d_def)

lemma update_corner_rights_3d_frame [simp]:
  "squares_3d (update_corner_rights_3d b m) = squares_3d b"
  "current_player_3d (update_corner_rights_3d b m) = current_player_3d b"
  "en_passant_layer (update_corner_rights_3d b m) = en_passant_layer b"
  "en_passant_row_3d (update_corner_rights_3d b m) = en_passant_row_3d b"
  "en_passant_col_3d (update_corner_rights_3d b m) = en_passant_col_3d b"
  "halfmove_clock_3d (update_corner_rights_3d b m) = halfmove_clock_3d b"
  "fullmove_number_3d (update_corner_rights_3d b m) = fullmove_number_3d b"
  by (simp_all add: update_corner_rights_3d_def Let_def set_square_3d_def)

lemma update_halfmove_clock_3d_frame [simp]:
  "squares_3d (update_halfmove_clock_3d b r) = squares_3d b"
  "current_player_3d (update_halfmove_clock_3d b r) = current_player_3d b"
  "white_castle_kingside_3d (update_halfmove_clock_3d b r) = white_castle_kingside_3d b"
  "white_castle_queenside_3d (update_halfmove_clock_3d b r) = white_castle_queenside_3d b"
  "black_castle_kingside_3d (update_halfmove_clock_3d b r) = black_castle_kingside_3d b"
  "black_castle_queenside_3d (update_halfmove_clock_3d b r) = black_castle_queenside_3d b"
  "en_passant_layer (update_halfmove_clock_3d b r) = en_passant_layer b"
  "en_passant_row_3d (update_halfmove_clock_3d b r) = en_passant_row_3d b"
  "en_passant_col_3d (update_halfmove_clock_3d b r) = en_passant_col_3d b"
  "fullmove_number_3d (update_halfmove_clock_3d b r) = fullmove_number_3d b"
  by (simp_all add: update_halfmove_clock_3d_def Let_def set_square_3d_def)

lemma update_fullmove_number_3d_frame [simp]:
  "squares_3d (update_fullmove_number_3d b) = squares_3d b"
  "current_player_3d (update_fullmove_number_3d b) = current_player_3d b"
  "white_castle_kingside_3d (update_fullmove_number_3d b) = white_castle_kingside_3d b"
  "white_castle_queenside_3d (update_fullmove_number_3d b) = white_castle_queenside_3d b"
  "black_castle_kingside_3d (update_fullmove_number_3d b) = black_castle_kingside_3d b"
  "black_castle_queenside_3d (update_fullmove_number_3d b) = black_castle_queenside_3d b"
  "en_passant_layer (update_fullmove_number_3d b) = en_passant_layer b"
  "en_passant_row_3d (update_fullmove_number_3d b) = en_passant_row_3d b"
  "en_passant_col_3d (update_fullmove_number_3d b) = en_passant_col_3d b"
  "halfmove_clock_3d (update_fullmove_number_3d b) = halfmove_clock_3d b"
  by (simp_all add: update_fullmove_number_3d_def Let_def set_square_3d_def)

lemma switch_player_3d_frame [simp]:
  "squares_3d (switch_player_3d b) = squares_3d b"
  "white_castle_kingside_3d (switch_player_3d b) = white_castle_kingside_3d b"
  "white_castle_queenside_3d (switch_player_3d b) = white_castle_queenside_3d b"
  "black_castle_kingside_3d (switch_player_3d b) = black_castle_kingside_3d b"
  "black_castle_queenside_3d (switch_player_3d b) = black_castle_queenside_3d b"
  "en_passant_layer (switch_player_3d b) = en_passant_layer b"
  "en_passant_row_3d (switch_player_3d b) = en_passant_row_3d b"
  "en_passant_col_3d (switch_player_3d b) = en_passant_col_3d b"
  "halfmove_clock_3d (switch_player_3d b) = halfmove_clock_3d b"
  "fullmove_number_3d (switch_player_3d b) = fullmove_number_3d b"
  by (simp_all add: switch_player_3d_def Let_def set_square_3d_def)

section \<open>Properties of the 2D engine\<close>

subsection \<open>Selectors of generated moves\<close>

lemma legal_loop_code [code]:
  "legal_loop temp_board player [] = []"
  "legal_loop temp_board player (m # ms) = legal_after (make_move temp_board m) player ms"
  by (simp_all add: legal_after_def split: prod.splits)

lemma new_move_sel [simp]:
  "from_row (new_move fr fc tr tc p cp cc) = fr"
  "from_col (new_move fr fc tr tc p cp cc) = fc"
  "to_row (new_move fr fc tr tc p cp cc) = tr"
  "to_col (new_move fr fc tr tc p cp cc) = tc"
  "promotion (new_move fr fc tr tc p cp cc) = p"
  "captured_piece (previous_state (new_move fr fc tr tc p cp cc)) = cp"
  "captured_color (previous_state (new_move fr fc tr tc p cp cc)) = cc"
  by (simp_all add: new_move_def)

lemma take_snapshot_sel [simp]:
  "from_row (take_snapshot b m) = from_row m"
  "from_col (take_snapshot b m) = from_col m"
  "to_row (take_snapshot b m) = to_row m"
  "to_col (take_snapshot b m) = to_col m"
  "promotion (take_snapshot b m) = promotion m"
  "captured_piece (previous_state (take_snapshot b m)) = captured_piece (previous_state m)"
  "captured_color (previous_state (take_snapshot b m)) = captured_color (previous_state m)"
  by (simp_all add: take_snapshot_def)

lemma snd_make_move: "snd (make_move b m) = take_snapshot b m"
  by (simp add: make_move_def Let_def)

lemma pawn_forward_from:
  "m \<in> set (pawn_forward_moves b r c) \<Longrightarrow> from_row m = r \<and> from_col m = c"
  by (auto simp: pawn_forward_moves_def Let_def split: if_splits)

lemma pawn_capture_from:
  "m \<in> set (pawn_capture_moves b r c off) \<Longrightarrow> from_row m = r \<and> from_col m = c"
  by (auto simp: pawn_capture_moves_def Let_def split: if_splits)

lemma pawn_from:
  "m \<in> set (generate_pawn_moves b r c) \<Longrightarrow> from_row m = r \<and> from_col m = c"
  by (auto simp: generate_pawn_moves_def dest: pawn_forward_from pawn_capture_from)

lemma step_from: "m \<in> set (step_move b r c d) \<Longrightarrow> from_row m = r \<and> from_col m = c"
  by (auto simp: step_move_def Let_def split: if_splits)

lemma step_to:
  "m \<in> set (step_move b r c d) \<Longrightarrow> to_row m = r + fst d \<and> to_col m = c + snd d"
  by (auto simp: step_move_def Let_def split: if_splits)

lemma dir_loop_from:
  "m \<in> set (directional_loop b r c dr dc nr nc) \<Longrightarrow> from_row m = r \<and> from_col m = c"
proof (induction b r c dr dc nr nc rule: directional_loop.induct)
  case (1 board row col row_dir col_dir new_row new_col)
  then show ?case
    by (subst (asm) (2) directional_loop.simps) (auto split: if_splits)
qed

lemma directional_from:
  "m \<in> set (generate_directional_moves b r c dr dc) \<Longrightarrow> from_row m = r \<and> from_col m = c"
  unfolding generate_directional_moves_def by (rule dir_loop_from)

lemma moves_at_from:
  assumes m: "m \<in> set (generate_moves_at b rc)"
  shows "(from_row m, from_col m) = rc"
proof -
  have "from_row m = fst rc \<and> from_col m = snd rc"
  proof (cases "piece (squares b rc)")
    case PAWN with m show ?thesis
      by (auto simp: generate_moves_at_def dest: pawn_from split: if_splits)
  next
    case KNIGHT with m show ?thesis
      by (auto simp: generate_moves_at_def generate_knight_moves_def dest: step_from
          split: if_splits)
  next
    case BISHOP with m show ?thesis
      by (auto simp: generate_moves_at_def generate_bishop_moves_def dest: directional_from
          split: if_splits)
  next
    case ROOK with m show ?thesis
      by (auto simp: generate_moves_at_def generate_rook_moves_def dest: directional_from
          split: if_splits)
  next
    case QUEEN with m show ?thesis
      by (auto simp: generate_moves_at_def generate_queen_moves_def generate_bishop_moves_def
          generate_rook_moves_def dest: directional_from split: if_splits)
  next
    case KING with m show ?thesis
      by (auto simp: generate_moves_at_def generate_king_moves_def dest: step_from
          split: if_splits)
  next
    case EMPTY with m show ?thesis by (simp add: generate_moves_at_def)
  qed
  then show ?thesis by (cases rc) simp
qed

lemma king_moves_cols:
  assumes "m \<in> set (generate_king_moves b r c)"
  shows "\<bar>to_col m - from_col m\<bar> \<le> 1"
proof -
  from assms obtain d where d: "d \<in> set king_steps" and m: "m \<in> set (step_move b r c d)"
    by (auto simp: generate_king_moves_def)
  from d have "\<bar>snd d\<bar> \<le> 1" by (auto simp: king_steps_def)
  with step_to[OF m] step_from[OF m] show ?thesis by simp
qed

text \<open>Every move in the output of the legal-move loop is one of the candidates, with the
  snapshot of some board written into it.\<close>

lemma legal_loop_subset:
  "m' \<in> set (legal_loop t p ms) \<Longrightarrow> \<exists>m \<in> set ms. \<exists>t'. m' = take_snapshot t' m"
proof (induction ms arbitrary: t)
  case Nil
  then show ?case by simp
next
  case (Cons a ms)
  obtain made a' where mk: "make_move t a = (made, a')" by (cases "make_move t a")
  then have a': "a' = take_snapshot t a" using snd_make_move[of t a] by simp
  from Cons.prems mk have "m' = a' \<or> m' \<in> set (legal_loop (undo_move made a') p ms)"
    by (auto split: if_splits)
  then show ?case using a' Cons.IH by auto
qed

subsection \<open>The initial position\<close>

text \<open>Claim C8. In the 2D variant, the legal-move generator applied to the position that
  \<open>init_board\<close> sets up returns exactly 20 moves, and the side to move there is White.\<close>

theorem initial_position_has_20_legal_moves:
  "current_player init_board = PLAYER_WHITE \<and> length (generate_legal_moves init_board) = 20"
  by code_simp

subsection \<open>No castling in the 2D generator\<close>

text \<open>Claim C10. In the 2D variant, for every board, no move in the output of
  \<open>generate_legal_moves\<close> whose origin square holds a king changes the column by two:
  a king move changes it by at most one. This holds whatever the castling flags and the
  squares between king and rook are, although \<open>make_move\<close> has a branch for a king move
  of two columns.\<close>

theorem no_castling_move_generated_2d:
  assumes "m \<in> set (generate_legal_moves b)"
    and "piece (squares b (from_row m, from_col m)) = KING"
  shows "\<bar>to_col m - from_col m\<bar> \<le> 1 \<and> \<bar>to_col m - from_col m\<bar> \<noteq> 2"
proof -
  from assms(1) obtain m0 t' where m0: "m0 \<in> set (generate_pseudo_legal_moves b)"
    and eq: "m = take_snapshot t' m0"
    unfolding generate_legal_moves_def by (blast dest: legal_loop_subset)
  from m0 obtain rc where rc: "m0 \<in> set (generate_moves_at b rc)"
    by (auto simp: generate_pseudo_legal_moves_def)
  then have frm: "(from_row m0, from_col m0) = rc" by (rule moves_at_from)
  with assms(2) eq have "piece (squares b rc) = KING" by simp
  with rc have "m0 \<in> set (generate_king_moves b (fst rc) (snd rc))"
    by (auto simp: generate_moves_at_def split: if_splits)
  then have "\<bar>to_col m0 - from_col m0\<bar> \<le> 1" by (rule king_moves_cols)
  with eq show ?thesis by simp
qed

theorem no_castling_move_generated_2d_witness:
  "king_step_e1f1 \<in> set (generate_legal_moves castle_ready)
   \<and> piece (squares castle_ready (from_row king_step_e1f1, from_col king_step_e1f1)) = KING
   \<and> white_castle_kingside castle_ready \<and> white_castle_queenside castle_ready
   \<and> \<bar>to_col king_step_e1f1 - from_col king_step_e1f1\<bar> \<le> 1
   \<and> \<bar>to_col king_step_e1f1 - from_col king_step_e1f1\<bar> \<noteq> 2"
proof -
  have h1: "king_step_e1f1 \<in> set (generate_legal_moves castle_ready)" by code_simp
  have h2: "piece (squares castle_ready (from_row king_step_e1f1, from_col king_step_e1f1)) = KING"
    by code_simp
  have h3: "white_castle_kingside castle_ready \<and> white_castle_queenside castle_ready"
    by code_simp
  from no_castling_move_generated_2d[OF h1 h2] h1 h2 h3 show ?thesis by blast
qed

subsection \<open>En-passant target; missing king\<close>

lemma sdiv_two_even: "(2 * k) sdiv 2 = (k::int)"
  by (simp add: signed_divide_int_def sgn_if abs_mult)

lemma between_rows:
  "\<bar>t - f\<bar> = 2 \<Longrightarrow> (f + t) sdiv 2 = (if t > f then f + 1 else f - (1::int))"
proof -
  assume a: "\<bar>t - f\<bar> = 2"
  show ?thesis
  proof (cases "t > f")
    case True
    with a have "f + t = 2 * (f + 1)" by simp
    then show ?thesis using True sdiv_two_even[of "f + 1"] by simp
  next
    case False
    with a have "f + t = 2 * (f - 1)" by simp
    then show ?thesis using False sdiv_two_even[of "f - 1"] by simp
  qed
qed

lemma make_move_en_passant:
  "en_passant_row (fst (make_move b m)) =
     (if piece (squares b (from_row m, from_col m)) = PAWN \<and> \<bar>to_row m - from_row m\<bar> = 2
      then (from_row m + to_row m) sdiv 2 else -1)"
  "en_passant_col (fst (make_move b m)) =
     (if piece (squares b (from_row m, from_col m)) = PAWN \<and> \<bar>to_row m - from_row m\<bar> = 2
      then from_col m else -1)"
  by (simp_all add: make_move_def Let_def update_en_passant_target_def)

lemma make_move_3d_en_passant:
  "en_passant_layer (make_move_3d b m) =
     (if piece_3d (squares_3d b (from_layer m, from_row_3d m, from_col_3d m)) = PAWN
         \<and> \<bar>to_row_3d m - from_row_3d m\<bar> = 2 \<and> from_layer m = to_layer m
      then from_layer m else -1)"
  "en_passant_row_3d (make_move_3d b m) =
     (if piece_3d (squares_3d b (from_layer m, from_row_3d m, from_col_3d m)) = PAWN
         \<and> \<bar>to_row_3d m - from_row_3d m\<bar> = 2 \<and> from_layer m = to_layer m
      then (from_row_3d m + to_row_3d m) sdiv 2 else -1)"
  "en_passant_col_3d (make_move_3d b m) =
     (if piece_3d (squares_3d b (from_layer m, from_row_3d m, from_col_3d m)) = PAWN
         \<and> \<bar>to_row_3d m - from_row_3d m\<bar> = 2 \<and> from_layer m = to_layer m
      then from_col_3d m else -1)"
  by (auto simp: make_move_3d_def Let_def update_en_passant_target_3d_def)

text \<open>Claim C4. For every board and every move, the en-passant target after \<open>make_move\<close>
  is the square the pawn skipped over (the row between origin and destination, in the
  origin's column, and in 3D on the origin's layer) exactly when the piece on the origin
  square is a pawn and the move changes the row by two (in 3D: without changing the
  layer); in every other case it is the cleared target, all coordinates \<open>-1\<close>. The
  target after the move does not depend on the target before it. First conjunct: the 2D
  program; second conjunct: the 3D program.\<close>

theorem en_passant_target_after_make:
  "(en_passant_row (fst (make_move b m)), en_passant_col (fst (make_move b m))) =
     (if piece (squares b (from_row m, from_col m)) = PAWN \<and> \<bar>to_row m - from_row m\<bar> = 2
      then (if to_row m > from_row m then from_row m + 1 else from_row m - 1, from_col m)
      else (-1, -1))
   \<and> (en_passant_layer (make_move_3d b3 m3), en_passant_row_3d (make_move_3d b3 m3),
       en_passant_col_3d (make_move_3d b3 m3)) =
     (if piece_3d (squares_3d b3 (from_layer m3, from_row_3d m3, from_col_3d m3)) = PAWN
         \<and> \<bar>to_row_3d m3 - from_row_3d m3\<bar> = 2 \<and> from_layer m3 = to_layer m3
      then (from_layer m3,
            if to_row_3d m3 > from_row_3d m3 then from_row_3d m3 + 1 else from_row_3d m3 - 1,
            from_col_3d m3)
      else (-1, -1, -1))"
proof -
  have two: "(en_passant_row (fst (make_move b m)), en_passant_col (fst (make_move b m))) =
     (if piece (squares b (from_row m, from_col m)) = PAWN \<and> \<bar>to_row m - from_row m\<bar> = 2
      then (if to_row m > from_row m then from_row m + 1 else from_row m - 1, from_col m)
      else (-1, -1))"
  proof (cases "piece (squares b (from_row m, from_col m)) = PAWN \<and> \<bar>to_row m - from_row m\<bar> = 2")
    case True
    then have d: "\<bar>to_row m - from_row m\<bar> = 2" by simp
    have "en_passant_row (fst (make_move b m)) = (from_row m + to_row m) sdiv 2"
      and "en_passant_col (fst (make_move b m)) = from_col m"
      by (simp_all only: make_move_en_passant if_P[OF True])
    then show ?thesis using between_rows[OF d] by (simp only: if_P[OF True])
  next
    case False
    have "en_passant_row (fst (make_move b m)) = -1"
      and "en_passant_col (fst (make_move b m)) = -1"
      by (simp_all only: make_move_en_passant if_not_P[OF False])
    then show ?thesis by (simp only: if_not_P[OF False])
  qed
  have three: "(en_passant_layer (make_move_3d b3 m3), en_passant_row_3d (make_move_3d b3 m3),
       en_passant_col_3d (make_move_3d b3 m3)) =
     (if piece_3d (squares_3d b3 (from_layer m3, from_row_3d m3, from_col_3d m3)) = PAWN
         \<and> \<bar>to_row_3d m3 - from_row_3d m3\<bar> = 2 \<and> from_layer m3 = to_layer m3
      then (from_layer m3,
            if to_row_3d m3 > from_row_3d m3 then from_row_3d m3 + 1 else from_row_3d m3 - 1,
            from_col_3d m3)
      else (-1, -1, -1))"
  proof (cases "piece_3d (squares_3d b3 (from_layer m3, from_row_3d m3, from_col_3d m3)) = PAWN
         \<and> \<bar>to_row_3d m3 - from_row_3d m3\<bar> = 2 \<and> from_layer m3 = to_layer m3")
    case True
    then have d: "\<bar>to_row_3d m3 - from_row_3d m3\<bar> = 2" by simp
    have "en_passant_layer (make_move_3d b3 m3) = from_layer m3"
      and "en_passant_row_3d (make_move_3d b3 m3) = (from_row_3d m3 + to_row_3d m3) sdiv 2"
      and "en_passant_col_3d (make_move_3d b3 m3) = from_col_3d m3"
      by (simp_all only: make_move_3d_en_passant if_P[OF True])
    then show ?thesis using between_rows[OF d] by (simp only: if_P[OF True])
  next
    case False
    have "en_passant_layer (make_move_3d b3 m3) = -1"
      and "en_passant_row_3d (make_move_3d b3 m3) = -1"
      and "en_passant_col_3d (make_move_3d b3 m3) = -1"
      by (simp_all only: make_move_3d_en_passant if_not_P[OF False])
    then show ?thesis by (simp only: if_not_P[OF False])
  qed
  from two three show ?thesis by (rule conjI)
qed

theorem en_passant_target_after_make_witness:
  "(en_passant_row (fst (make_move init_board double_push_a2a4)),
    en_passant_col (fst (make_move init_board double_push_a2a4))) = (5, 0)
   \<and> (en_passant_layer (make_move_3d init_board_3d double_push_3d),
       en_passant_row_3d (make_move_3d init_board_3d double_push_3d),
       en_passant_col_3d (make_move_3d init_board_3d double_push_3d)) = (2, 5, 0)"
proof -
  have e2: "(if piece (squares init_board (from_row double_push_a2a4, from_col double_push_a2a4))
               = PAWN \<and> \<bar>to_row double_push_a2a4 - from_row double_push_a2a4\<bar> = 2
      then (if to_row double_push_a2a4 > from_row double_push_a2a4
            then from_row double_push_a2a4 + 1 else from_row double_push_a2a4 - 1,
            from_col double_push_a2a4)
      else (-1, -1)) = (5, 0)"
    by code_simp
  have e3: "(if piece_3d (squares_3d init_board_3d
           (from_layer double_push_3d, from_row_3d double_push_3d, from_col_3d double_push_3d)) = PAWN
         \<and> \<bar>to_row_3d double_push_3d - from_row_3d double_push_3d\<bar> = 2
         \<and> from_layer double_push_3d = to_layer double_push_3d
      then (from_layer double_push_3d,
            if to_row_3d double_push_3d > from_row_3d double_push_3d
            then from_row_3d double_push_3d + 1 else from_row_3d double_push_3d - 1,
            from_col_3d double_push_3d)
      else (-1, -1, -1)) = (2, 5, 0)"
    by code_simp
  show ?thesis
    using en_passant_target_after_make[of init_board double_push_a2a4 init_board_3d double_push_3d]
    unfolding e2 e3 .
qed

lemma set_all_squares: "set all_squares = {0..7} \<times> {0..7}"
  by (auto simp: all_squares_def)

lemma all_squares_valid: "rc \<in> set all_squares \<longleftrightarrow> is_valid_position (fst rc) (snd rc)"
  by (cases rc) (auto simp: set_all_squares is_valid_position_def BOARD_SIZE_def)

lemma set_find_king_scan_3d: "set find_king_scan_3d = {0..2} \<times> {0..7} \<times> {0..7}"
  by (auto simp: find_king_scan_3d_def)

lemma scan_3d_valid:
  "lrc \<in> set find_king_scan_3d \<longleftrightarrow>
     is_valid_position_3d (fst lrc) (fst (snd lrc)) (snd (snd lrc))"
  by (cases lrc) (auto simp: set_find_king_scan_3d is_valid_position_3d_def BOARD_SIZE_def
      BOARD_LAYERS_def)

lemma find_None_iff2: "find P xs = None \<longleftrightarrow> (\<forall>x \<in> set xs. \<not> P x)"
  by (induction xs) auto

text \<open>Claim C9. On a board with no king of the queried colour, \<open>find_king\<close> reports
  that none was found (in 2D with both out-parameters set to \<open>-1\<close>) and
  \<open>is_king_in_check\<close> returns false without calling the attack test; every square that
  the scan of \<open>find_king\<close> reads is a valid position. This holds for every board, in the
  2D program (first two conjuncts) and in the 3D program (last two).\<close>

theorem missing_king_is_tolerated:
  "((\<forall>r c. is_valid_position r c \<longrightarrow>
        \<not> (piece (squares b (r, c)) = KING \<and> color (squares b (r, c)) = k))
     \<longrightarrow> find_king b k = (False, -1, -1) \<and> \<not> is_king_in_check b k)
   \<and> (\<forall>rc \<in> set all_squares. is_valid_position (fst rc) (snd rc))
   \<and> ((\<forall>l r c. is_valid_position_3d l r c \<longrightarrow>
        \<not> (piece_3d (squares_3d b3 (l, r, c)) = KING \<and> color_3d (squares_3d b3 (l, r, c)) = k3))
     \<longrightarrow> find_king_3d b3 k3 = None \<and> \<not> is_king_in_check_3d b3 k3)
   \<and> (\<forall>lrc \<in> set find_king_scan_3d.
         is_valid_position_3d (fst lrc) (fst (snd lrc)) (snd (snd lrc)))"
proof (intro conjI impI)
  assume a: "\<forall>r c. is_valid_position r c \<longrightarrow>
        \<not> (piece (squares b (r, c)) = KING \<and> color (squares b (r, c)) = k)"
  have "find (\<lambda>rc. piece (squares b rc) = KING \<and> color (squares b rc) = k) all_squares = None"
    unfolding find_None_iff2
  proof
    fix rc assume "rc \<in> set all_squares"
    then have "is_valid_position (fst rc) (snd rc)" by (simp add: all_squares_valid)
    with a have "\<not> (piece (squares b (fst rc, snd rc)) = KING
                    \<and> color (squares b (fst rc, snd rc)) = k)" by blast
    then show "\<not> (piece (squares b rc) = KING \<and> color (squares b rc) = k)" by simp
  qed
  then show "find_king b k = (False, -1, -1)" "\<not> is_king_in_check b k"
    by (simp_all add: find_king_def is_king_in_check_def)
next
  assume a: "\<forall>l r c. is_valid_position_3d l r c \<longrightarrow>
        \<not> (piece_3d (squares_3d b3 (l, r, c)) = KING \<and> color_3d (squares_3d b3 (l, r, c)) = k3)"
  have "find (\<lambda>lrc. piece_3d (squares_3d b3 lrc) = KING \<and> color_3d (squares_3d b3 lrc) = k3)
          find_king_scan_3d = None"
    unfolding find_None_iff2
  proof
    fix lrc assume "lrc \<in> set find_king_scan_3d"
    then have "is_valid_position_3d (fst lrc) (fst (snd lrc)) (snd (snd lrc))"
      by (simp add: scan_3d_valid)
    with a have "\<not> (piece_3d (squares_3d b3 (fst lrc, fst (snd lrc), snd (snd lrc))) = KING
        \<and> color_3d (squares_3d b3 (fst lrc, fst (snd lrc), snd (snd lrc))) = k3)" by blast
    then show "\<not> (piece_3d (squares_3d b3 lrc) = KING \<and> color_3d (squares_3d b3 lrc) = k3)"
      by simp
  qed
  then show "find_king_3d b3 k3 = None" "\<not> is_king_in_check_3d b3 k3"
    by (simp_all add: find_king_3d_def is_king_in_check_3d_def)
qed (simp_all add: all_squares_valid scan_3d_valid)

theorem missing_king_is_tolerated_witness:
  "\<not> (\<exists>r c. is_valid_position r c
          \<and> piece (squares lone_white_king (r, c)) = KING
          \<and> color (squares lone_white_king (r, c)) = PLAYER_BLACK)
   \<and> find_king lone_white_king PLAYER_BLACK = (False, -1, -1)
   \<and> \<not> is_king_in_check lone_white_king PLAYER_BLACK
   \<and> \<not> (\<exists>l r c. is_valid_position_3d l r c
          \<and> piece_3d (squares_3d lone_white_king_3d (l, r, c)) = KING
          \<and> color_3d (squares_3d lone_white_king_3d (l, r, c)) = P_BLACK)
   \<and> find_king_3d lone_white_king_3d P_BLACK = None
   \<and> \<not> is_king_in_check_3d lone_white_king_3d P_BLACK"
proof -
  have h2: "\<forall>r c. is_valid_position r c \<longrightarrow>
        \<not> (piece (squares lone_white_king (r, c)) = KING
           \<and> color (squares lone_white_king (r, c)) = PLAYER_BLACK)"
    by (simp add: lone_white_king_def empty_square_def)
  have h3: "\<forall>l r c. is_valid_position_3d l r c \<longrightarrow>
        \<not> (piece_3d (squares_3d lone_white_king_3d (l, r, c)) = KING
           \<and> color_3d (squares_3d lone_white_king_3d (l, r, c)) = P_BLACK)"
    by (simp add: lone_white_king_3d_def empty_square_3d_def)
  from missing_king_is_tolerated[of lone_white_king PLAYER_BLACK lone_white_king_3d P_BLACK]
    h2 h3 show ?thesis by blast
qed

subsection \<open>Game over and the terminal test of the 2D search\<close>

lemma strstr_checkmate [simp]:
  "strstr (''Checkmate! '' @ w) ''Checkmate''"
  "\<not> strstr ''Stalemate! Draw.'' ''Checkmate''"
  by simp_all

lemma is_game_over_iff:
  "fst (is_game_over b) \<longleftrightarrow>
     generate_legal_moves b = [] \<or> halfmove_clock b \<ge> 100
     \<or> \<not> fst (find_king b PLAYER_WHITE) \<or> \<not> fst (find_king b PLAYER_BLACK)"
  by (simp add: is_game_over_def Let_def)

lemma minimax_no_legal_moves:
  assumes "generate_legal_moves b = []"
  shows "minimax (Suc fuel) b depth alpha beta maximizing =
     Some (b, if is_king_in_check b (current_player b)
              then (if current_player b = PLAYER_WHITE
                    then - (MATE_SCORE + depth) else MATE_SCORE + depth)
              else 0)"
  using assms by (simp add: is_game_over_def Let_def)


section \<open>Make and undo in the 2D engine\<close>

subsection \<open>The shape of generated moves\<close>

lemma pawn_forward_shape:
  assumes "m \<in> set (pawn_forward_moves b r c)"
  shows "is_valid_position (to_row m) (to_col m)
     \<and> piece (squares b (to_row m, to_col m)) = EMPTY
     \<and> to_col m = c
     \<and> (to_row m = r + pawn_direction b r c
        \<or> to_row m = r + 2 * pawn_direction b r c
          \<and> is_valid_position (r + pawn_direction b r c) c
          \<and> piece (squares b (r + pawn_direction b r c, c)) = EMPTY
          \<and> promotion m = EMPTY)
     \<and> records_destination b m"
  using assms
  by (auto simp: pawn_forward_moves_def Let_def records_destination_def promo_pieces_def
      split: if_splits)

lemma pawn_capture_shape:
  assumes "m \<in> set (pawn_capture_moves b r c off)" and "off \<noteq> 0"
  shows "is_valid_position (to_row m) (to_col m)
     \<and> to_row m = r + pawn_direction b r c
     \<and> to_col m \<noteq> c
     \<and> (piece (squares b (to_row m, to_col m)) \<noteq> EMPTY
          \<and> color (squares b (to_row m, to_col m)) = pawn_opponent_color b r c
          \<and> records_destination b m
        \<or> piece (squares b (to_row m, to_col m)) = EMPTY
          \<and> to_row m = en_passant_row b \<and> to_col m = en_passant_col b
          \<and> captured_piece (previous_state m) = PAWN
          \<and> captured_color (previous_state m) = pawn_opponent_color b r c
          \<and> promotion m = EMPTY)"
  using assms
  by (auto simp: pawn_capture_moves_def Let_def records_destination_def promo_pieces_def
      split: if_splits)

lemma step_move_shape:
  assumes "m \<in> set (step_move b r c d)"
  shows "is_valid_position (to_row m) (to_col m)
     \<and> to_col m = c + snd d
     \<and> color (squares b (to_row m, to_col m)) \<noteq> color (squares b (r, c))
     \<and> promotion m = EMPTY
     \<and> records_destination b m"
  using assms
  by (auto simp: step_move_def Let_def records_destination_def split: if_splits)

lemma dir_loop_shape:
  "m \<in> set (directional_loop b r c dr dc nr nc) \<Longrightarrow>
     is_valid_position (to_row m) (to_col m)
     \<and> (piece (squares b (to_row m, to_col m)) = EMPTY
        \<or> color (squares b (to_row m, to_col m)) \<noteq> color (squares b (r, c)))
     \<and> promotion m = EMPTY
     \<and> records_destination b m"
proof (induction b r c dr dc nr nc rule: directional_loop.induct)
  case (1 board row col row_dir col_dir new_row new_col)
  then show ?case
    by (subst (asm) (2) directional_loop.simps)
       (auto simp: records_destination_def split: if_splits)
qed

lemma pawn_direction_abs [simp]: "\<bar>pawn_direction b r c\<bar> = 1"
  by (simp add: pawn_direction_def)

lemma pawn_moves_shape:
  assumes m: "m \<in> set (generate_pawn_moves b r c)"
    and rc: "is_valid_position r c" "piece (squares b (r, c)) = PAWN"
      "color (squares b (r, c)) = current_player b"
  shows "generated_shape b m"
proof -
  have frm: "from_row m = r" "from_col m = c" using pawn_from[OF m] by simp_all
  from m have "m \<in> set (pawn_forward_moves b r c)
      \<or> m \<in> set (pawn_capture_moves b r c (-1)) \<or> m \<in> set (pawn_capture_moves b r c 1)"
    by (auto simp: generate_pawn_moves_def)
  then consider "m \<in> set (pawn_forward_moves b r c)"
    | off where "off \<noteq> 0" "m \<in> set (pawn_capture_moves b r c off)"
    by (metis one_neq_zero neg_equal_0_iff_equal)
  then show ?thesis
  proof cases
    case 1
    from pawn_forward_shape[OF 1] rc frm show ?thesis
      unfolding generated_shape_def by (auto simp: pawn_direction_def)
  next
    case 2
    from pawn_capture_shape[OF 2(2) 2(1)] rc frm show ?thesis
      unfolding generated_shape_def records_en_passant_def
      by (auto simp: pawn_direction_def pawn_opponent_color_def)
  qed
qed

lemma step_moves_shape:
  assumes m: "m \<in> set (step_move b r c d)"
    and rc: "is_valid_position r c" "piece (squares b (r, c)) \<noteq> EMPTY"
      "piece (squares b (r, c)) \<noteq> PAWN"
      "color (squares b (r, c)) = current_player b"
    and d: "\<bar>snd d\<bar> \<le> 1 \<or> piece (squares b (r, c)) \<noteq> KING"
  shows "generated_shape b m"
proof -
  have frm: "from_row m = r" "from_col m = c" using step_from[OF m] by simp_all
  from step_move_shape[OF m] rc frm d show ?thesis
    unfolding generated_shape_def by auto
qed

lemma directional_moves_shape:
  assumes m: "m \<in> set (generate_directional_moves b r c dr dc)"
    and rc: "is_valid_position r c" "piece (squares b (r, c)) \<noteq> EMPTY"
      "piece (squares b (r, c)) \<noteq> PAWN" "piece (squares b (r, c)) \<noteq> KING"
      "color (squares b (r, c)) = current_player b"
  shows "generated_shape b m"
proof -
  have frm: "from_row m = r" "from_col m = c" using directional_from[OF m] by simp_all
  from m have "m \<in> set (directional_loop b r c dr dc (r + dr) (c + dc))"
    by (simp add: generate_directional_moves_def)
  from dir_loop_shape[OF this] rc frm show ?thesis
    unfolding generated_shape_def by auto
qed

lemma moves_at_shape:
  assumes m: "m \<in> set (generate_moves_at b rc)" and v: "rc \<in> set all_squares"
  shows "generated_shape b m"
proof -
  obtain r c where rc: "rc = (r, c)" by (cases rc)
  from v rc have valid: "is_valid_position r c" by (simp add: all_squares_valid)
  from m have ne: "piece (squares b (r, c)) \<noteq> EMPTY"
    and col: "color (squares b (r, c)) = current_player b"
    unfolding generate_moves_at_def rc by (auto split: if_splits)
  show ?thesis
  proof (cases "piece (squares b (r, c))")
    case EMPTY with ne show ?thesis by simp
  next
    case PAWN
    with m rc ne col have "m \<in> set (generate_pawn_moves b r c)"
      by (simp add: generate_moves_at_def)
    then show ?thesis using valid PAWN col by (rule pawn_moves_shape)
  next
    case KNIGHT
    with m rc ne col obtain d where "m \<in> set (step_move b r c d)"
      by (auto simp: generate_moves_at_def generate_knight_moves_def)
    then show ?thesis using valid col KNIGHT by (auto intro!: step_moves_shape)
  next
    case KING
    with m rc ne col obtain d where d: "d \<in> set king_steps" "m \<in> set (step_move b r c d)"
      by (auto simp: generate_moves_at_def generate_king_moves_def)
    from d(1) have "\<bar>snd d\<bar> \<le> 1" by (auto simp: king_steps_def)
    with d(2) show ?thesis using valid col KING by (auto intro!: step_moves_shape)
  next
    case BISHOP
    with m rc ne col obtain dr dc where "m \<in> set (generate_directional_moves b r c dr dc)"
      by (auto simp: generate_moves_at_def generate_bishop_moves_def)
    then show ?thesis using valid col BISHOP by (auto intro!: directional_moves_shape)
  next
    case ROOK
    with m rc ne col obtain dr dc where "m \<in> set (generate_directional_moves b r c dr dc)"
      by (auto simp: generate_moves_at_def generate_rook_moves_def)
    then show ?thesis using valid col ROOK by (auto intro!: directional_moves_shape)
  next
    case QUEEN
    with m rc ne col obtain dr dc where "m \<in> set (generate_directional_moves b r c dr dc)"
      by (auto simp: generate_moves_at_def generate_queen_moves_def generate_bishop_moves_def
          generate_rook_moves_def)
    then show ?thesis using valid col QUEEN by (auto intro!: directional_moves_shape)
  qed
qed

lemma pseudo_legal_shape:
  "m \<in> set (generate_pseudo_legal_moves b) \<Longrightarrow> generated_shape b m"
  by (auto simp: generate_pseudo_legal_moves_def dest: moves_at_shape)


subsection \<open>The fields after make and after undo\<close>

lemma castling_rook_move_squares:
  "\<not> (p = KING \<and> \<bar>to_col m - from_col m\<bar> = 2)
     \<Longrightarrow> squares (castling_rook_move b m p k) = squares b"
  by (auto simp: castling_rook_move_def Let_def)

lemma remove_en_passant_pawn_squares:
  "squares (remove_en_passant_pawn b m ip) =
     (if is_en_passant_capture b m ip
      then (squares b)((from_row m, to_col m) := empty_square) else squares b)"
  by (simp add: remove_en_passant_pawn_def set_square_def)

lemma move_the_piece_squares:
  "squares (move_the_piece b m p k) =
     (squares b)((to_row m, to_col m) :=
                   \<lparr>piece = (if promotion m \<noteq> EMPTY then promotion m else p), color = k\<rparr>,
                 (from_row m, from_col m) := empty_square)"
  by (simp add: move_the_piece_def set_square_def)

lemma restore_origin_squares:
  "squares (restore_origin b m p k) =
     (squares b)((from_row m, from_col m) := \<lparr>piece = p, color = k\<rparr>)"
  by (simp add: restore_origin_def set_square_def)

lemma restore_destination_squares:
  "squares (restore_destination b m p) =
     (if undo_is_en_passant b m p
      then (squares b)((to_row m, to_col m) := empty_square,
                       (from_row m, to_col m) :=
                          \<lparr>piece = PAWN, color = captured_color (previous_state m)\<rparr>)
      else (squares b)((to_row m, to_col m) :=
                          \<lparr>piece = captured_piece (previous_state m),
                           color = captured_color (previous_state m)\<rparr>))"
  by (simp add: restore_destination_def set_square_def)

lemma undo_castling_rook_squares:
  "\<not> (p = KING \<and> \<bar>to_col m - from_col m\<bar> = 2)
     \<Longrightarrow> squares (undo_castling_rook b m p) = squares b"
  by (auto simp: undo_castling_rook_def Let_def)

lemma make_move_fields:
  "current_player (fst (make_move b m)) =
     (if color (squares b (from_row m, from_col m)) = PLAYER_WHITE
      then PLAYER_BLACK else PLAYER_WHITE)"
  "fullmove_number (fst (make_move b m)) =
     (if current_player b = PLAYER_BLACK then fullmove_number b + 1 else fullmove_number b)"
  "squares (fst (make_move b m)) =
     squares (move_the_piece
       (remove_en_passant_pawn
          (castling_rook_move b (take_snapshot b m)
             (piece (squares b (from_row m, from_col m)))
             (color (squares b (from_row m, from_col m))))
          (take_snapshot b m) (piece (squares b (from_row m, from_col m)) = PAWN))
       (take_snapshot b m)
       (piece (squares b (from_row m, from_col m)))
       (color (squares b (from_row m, from_col m))))"
  by (simp_all add: make_move_def Let_def switch_player_def update_fullmove_number_def)

lemma undo_move_fields:
  "white_castle_kingside (undo_move b m) = ps_white_castle_kingside (previous_state m)"
  "white_castle_queenside (undo_move b m) = ps_white_castle_queenside (previous_state m)"
  "black_castle_kingside (undo_move b m) = ps_black_castle_kingside (previous_state m)"
  "black_castle_queenside (undo_move b m) = ps_black_castle_queenside (previous_state m)"
  "en_passant_row (undo_move b m) = ps_en_passant_row (previous_state m)"
  "en_passant_col (undo_move b m) = ps_en_passant_col (previous_state m)"
  "halfmove_clock (undo_move b m) = ps_halfmove_clock (previous_state m)"
  "current_player (undo_move b m) =
     (if current_player b = PLAYER_WHITE then PLAYER_BLACK else PLAYER_WHITE)"
  "fullmove_number (undo_move b m) =
     (if current_player b = PLAYER_WHITE then fullmove_number b - 1 else fullmove_number b)"
  by (simp_all add: undo_move_def Let_def restore_flags_def restore_fullmove_number_def)

lemma undo_move_squares:
  "squares (undo_move b m) =
     (let orig = (if promotion m \<noteq> EMPTY then PAWN else piece (squares b (to_row m, to_col m)));
          prev = (if current_player b = PLAYER_WHITE then PLAYER_BLACK else PLAYER_WHITE)
      in squares (undo_castling_rook
           (restore_destination (restore_origin (restore_flags b m) m orig prev) m orig)
           m orig))"
  by (simp add: undo_move_def Let_def restore_fullmove_number_def)

lemma take_snapshot_state [simp]:
  "ps_white_castle_kingside (previous_state (take_snapshot b m)) = white_castle_kingside b"
  "ps_white_castle_queenside (previous_state (take_snapshot b m)) = white_castle_queenside b"
  "ps_black_castle_kingside (previous_state (take_snapshot b m)) = black_castle_kingside b"
  "ps_black_castle_queenside (previous_state (take_snapshot b m)) = black_castle_queenside b"
  "ps_en_passant_row (previous_state (take_snapshot b m)) = en_passant_row b"
  "ps_en_passant_col (previous_state (take_snapshot b m)) = en_passant_col b"
  "ps_halfmove_clock (previous_state (take_snapshot b m)) = halfmove_clock b"
  by (simp_all add: take_snapshot_def)


subsection \<open>Make followed by undo\<close>

lemma square_eta [simp]: "\<lparr>piece = piece s, color = color s\<rparr> = s"
  by simp

lemma generated_shapeD:
  assumes "generated_shape b m"
  shows "is_valid_position (from_row m) (from_col m)"
    and "is_valid_position (to_row m) (to_col m)"
    and "piece (squares b (from_row m, from_col m)) \<noteq> EMPTY"
    and "color (squares b (from_row m, from_col m)) = current_player b"
    and "piece (squares b (to_row m, to_col m)) = EMPTY
        \<or> color (squares b (to_row m, to_col m)) \<noteq> color (squares b (from_row m, from_col m))"
    and "promotion m \<noteq> EMPTY \<Longrightarrow> piece (squares b (from_row m, from_col m)) = PAWN"
    and "piece (squares b (from_row m, from_col m)) = KING \<Longrightarrow> \<bar>to_col m - from_col m\<bar> \<le> 1"
    and "records_destination b m \<or> records_en_passant b m"
  using assms unfolding generated_shape_def by blast+

lemma generated_shape_double_push:
  assumes "generated_shape b m" and "piece (squares b (from_row m, from_col m)) = PAWN"
    and "\<bar>to_row m - from_row m\<bar> = 2"
  shows "to_col m = from_col m"
    and "to_row m = from_row m + 2 * pawn_direction b (from_row m) (from_col m)"
    and "is_valid_position (from_row m + pawn_direction b (from_row m) (from_col m)) (from_col m)"
    and "piece (squares b (from_row m + pawn_direction b (from_row m) (from_col m), from_col m))
           = EMPTY"
    and "promotion m = EMPTY"
  using assms unfolding generated_shape_def by blast+

lemma well_formedD:
  assumes "well_formed b"
  shows "is_valid_position r c \<Longrightarrow>
           (piece (squares b (r, c)) = EMPTY) = (color (squares b (r, c)) = NONE)"
    and "current_player b \<noteq> NONE"
    and "en_passant_consistent b"
  using assms unfolding well_formed_def squares_consistent_def by blast+

text \<open>On a well-formed board, what a generated move records about its destination is
  the destination square itself, unless it is the en-passant marking.\<close>

lemma recorded_square:
  assumes wf: "well_formed b" and vt: "is_valid_position (to_row m) (to_col m)"
    and rec: "records_destination b m"
  shows "\<lparr>piece = captured_piece (previous_state m), color = captured_color (previous_state m)\<rparr>
           = squares b (to_row m, to_col m)"
proof -
  from rec have p: "captured_piece (previous_state m) = piece (squares b (to_row m, to_col m))"
    by (simp add: records_destination_def)
  from rec well_formedD(1)[OF wf vt]
  have "captured_color (previous_state m) = color (squares b (to_row m, to_col m))"
    by (auto simp: records_destination_def)
  with p show ?thesis by simp
qed


lemma roundtrip_squares_plain:
  assumes wf: "well_formed b" and sh: "generated_shape b m"
    and rec: "records_destination b m"
  shows "squares (undo_move (fst (make_move b m)) (snd (make_move b m))) = squares b"
proof -
  define p where "p = piece (squares b (from_row m, from_col m))"
  define k where "k = color (squares b (from_row m, from_col m))"
  define m' where "m' = take_snapshot b m"
  note shD = generated_shapeD[OF sh, folded p_def k_def]
  note wfD = well_formedD[OF wf]
  have vt: "is_valid_position (to_row m) (to_col m)" by (rule shD(2))
  have kne: "k \<noteq> NONE" using shD(4) wfD(2) by simp
  have pne: "p \<noteq> EMPTY" by (rule shD(3))
  have nocastle: "\<not> (p = KING \<and> \<bar>to_col m - from_col m\<bar> = 2)"
    using shD(7) by auto
  have neq: "(from_row m, from_col m) \<noteq> (to_row m, to_col m)"
  proof
    assume e: "(from_row m, from_col m) = (to_row m, to_col m)"
    with shD(5) have "p = EMPTY" unfolding p_def k_def by auto
    with pne show False by simp
  qed
  have cap: "captured_piece (previous_state m) = piece (squares b (to_row m, to_col m))"
    using rec by (simp add: records_destination_def)
  have b1: "squares (castling_rook_move b m' p k) = squares b"
    using nocastle by (simp add: castling_rook_move_squares m'_def)
  have noep: "\<not> is_en_passant_capture (castling_rook_move b m' p k) m' (p = PAWN)"
  proof
    assume "is_en_passant_capture (castling_rook_move b m' p k) m' (p = PAWN)"
    then have "piece (squares (castling_rook_move b m' p k) (to_row m', to_col m')) = EMPTY"
      and "captured_piece (previous_state m') = PAWN"
      unfolding is_en_passant_capture_def by blast+
    with b1 cap show False by (simp add: m'_def)
  qed
  have made: "squares (fst (make_move b m)) =
      (squares b)((to_row m, to_col m) :=
                    \<lparr>piece = (if promotion m \<noteq> EMPTY then promotion m else p), color = k\<rparr>,
                  (from_row m, from_col m) := empty_square)"
    unfolding make_move_fields(3) move_the_piece_squares remove_en_passant_pawn_squares
    using noep b1 by (simp add: p_def k_def m'_def)
  have cur': "current_player (fst (make_move b m)) = opponent k"
    by (simp add: make_move_fields(1) opponent_def k_def)
  have prev: "(if current_player (fst (make_move b m)) = PLAYER_WHITE
               then PLAYER_BLACK else PLAYER_WHITE) = k"
    using kne by (cases k) (simp_all add: cur' opponent_def)
  have orig: "(if promotion m' \<noteq> EMPTY then PAWN
               else piece (squares (fst (make_move b m)) (to_row m', to_col m'))) = p"
    using neq shD(6) by (auto simp: made m'_def)
  have noundoep: "\<not> undo_is_en_passant
       (restore_origin (restore_flags (fst (make_move b m)) m') m' p k) m' p"
  proof
    assume u: "undo_is_en_passant
       (restore_origin (restore_flags (fst (make_move b m)) m') m' p k) m' p"
    then have t: "to_row m = en_passant_row b" "to_col m = en_passant_col b"
      and c: "captured_piece (previous_state m) = PAWN"
      by (simp_all add: undo_is_en_passant_def restore_flags_def m'_def)
    from vt t wfD(3) have "piece (squares b (to_row m, to_col m)) = EMPTY"
      by (simp add: en_passant_consistent_def)
    with cap c show False by simp
  qed
  have "squares (undo_move (fst (make_move b m)) m') =
      (squares (fst (make_move b m)))
        ((from_row m, from_col m) := \<lparr>piece = p, color = k\<rparr>,
         (to_row m, to_col m) := \<lparr>piece = captured_piece (previous_state m),
                                   color = captured_color (previous_state m)\<rparr>)"
    unfolding undo_move_squares Let_def orig prev
    using noundoep nocastle
    by (simp add: undo_castling_rook_squares restore_destination_squares
        restore_origin_squares m'_def)
  also have "\<dots> = squares b"
    unfolding made recorded_square[OF wf vt rec]
    using neq by (auto simp: fun_eq_iff p_def k_def)
  finally show ?thesis by (simp add: snd_make_move m'_def)
qed


lemma roundtrip_squares_en_passant:
  assumes wf: "well_formed b" and sh: "generated_shape b m"
    and rec: "records_en_passant b m"
  shows "squares (undo_move (fst (make_move b m)) (snd (make_move b m))) = squares b"
proof -
  define k where "k = color (squares b (from_row m, from_col m))"
  define m' where "m' = take_snapshot b m"
  note shD = generated_shapeD[OF sh, folded k_def]
  note wfD = well_formedD[OF wf]
  have vt: "is_valid_position (to_row m) (to_col m)" by (rule shD(2))
  have kcur: "k = current_player b" by (rule shD(4))
  have kne: "k \<noteq> NONE" using shD(4) wfD(2) by simp
  from rec have p: "piece (squares b (from_row m, from_col m)) = PAWN"
    and t: "to_row m = en_passant_row b" "to_col m = en_passant_col b"
    and te: "piece (squares b (to_row m, to_col m)) = EMPTY"
    and cp: "captured_piece (previous_state m) = PAWN"
    and cc: "captured_color (previous_state m) = opponent k"
    and row: "to_row m = from_row m + (if k = PLAYER_WHITE then -1 else 1)"
    and colne: "to_col m \<noteq> from_col m"
    and promo: "promotion m = EMPTY"
    unfolding records_en_passant_def pawn_opponent_color_def pawn_direction_def opponent_def
      k_def by blast+
  have src: "squares b (from_row m, from_col m) = \<lparr>piece = PAWN, color = k\<rparr>"
    using p by (simp add: k_def)
  have dst: "squares b (to_row m, to_col m) = empty_square"
    using te well_formedD(1)[OF wf vt] by (simp add: empty_square_def)
  have vep: "is_valid_position (en_passant_row b) (en_passant_col b)"
    using vt t by simp
  have behind: "squares b (from_row m, to_col m) = \<lparr>piece = PAWN, color = opponent k\<rparr>"
  proof -
    from wfD(3) vep have "squares b
        (en_passant_row b + (if current_player b = PLAYER_WHITE then 1 else -1),
         en_passant_col b) = \<lparr>piece = PAWN, color = opponent (current_player b)\<rparr>"
      by (simp add: en_passant_consistent_def)
    moreover have "en_passant_row b + (if current_player b = PLAYER_WHITE then 1 else -1)
        = from_row m"
      using row t kcur by simp
    ultimately show ?thesis using t kcur by simp
  qed
  have b1: "squares (castling_rook_move b m' PAWN k) = squares b"
    by (simp add: castling_rook_move_squares)
  have isep: "is_en_passant_capture (castling_rook_move b m' PAWN k) m' True"
    unfolding is_en_passant_capture_def b1 using t cp te by (simp add: m'_def)
  have made: "squares (fst (make_move b m)) =
      (squares b)((from_row m, to_col m) := empty_square,
                  (to_row m, to_col m) := \<lparr>piece = PAWN, color = k\<rparr>,
                  (from_row m, from_col m) := empty_square)"
    unfolding make_move_fields(3) move_the_piece_squares remove_en_passant_pawn_squares
    using isep b1 promo p by (simp add: k_def m'_def)
  have neq: "(from_row m, from_col m) \<noteq> (to_row m, to_col m)" using colne by simp
  have prev: "(if current_player (fst (make_move b m)) = PLAYER_WHITE
               then PLAYER_BLACK else PLAYER_WHITE) = k"
    using kne by (cases k) (simp_all add: make_move_fields(1) k_def)
  have orig: "(if promotion m' \<noteq> EMPTY then PAWN
               else piece (squares (fst (make_move b m)) (to_row m', to_col m'))) = PAWN"
    using neq promo by (auto simp: made m'_def)
  have undoep: "undo_is_en_passant
       (restore_origin (restore_flags (fst (make_move b m)) m') m' PAWN k) m' PAWN"
    using t cp by (simp add: undo_is_en_passant_def restore_flags_def m'_def)
  have "squares (undo_move (fst (make_move b m)) m') =
      (squares (fst (make_move b m)))
        ((from_row m, from_col m) := \<lparr>piece = PAWN, color = k\<rparr>,
         (to_row m, to_col m) := empty_square,
         (from_row m, to_col m) := \<lparr>piece = PAWN, color = opponent k\<rparr>)"
    unfolding undo_move_squares Let_def orig prev
    using undoep cc
    by (simp add: undo_castling_rook_squares restore_destination_squares
        restore_origin_squares m'_def)
  also have "\<dots> = squares b"
    unfolding made using src dst behind by (auto simp: fun_eq_iff)
  finally show ?thesis by (simp add: snd_make_move m'_def)
qed

lemma roundtrip_squares:
  assumes "well_formed b" and "generated_shape b m"
  shows "squares (undo_move (fst (make_move b m)) (snd (make_move b m))) = squares b"
  using generated_shapeD(8)[OF assms(2)] assms
  by (auto intro: roundtrip_squares_plain roundtrip_squares_en_passant)

lemma roundtrip:
  assumes wf: "well_formed b" and sh: "generated_shape b m"
  shows "undo_move (fst (make_move b m)) (snd (make_move b m)) = b"
proof (rule Board.equality)
  show "squares (undo_move (fst (make_move b m)) (snd (make_move b m))) = squares b"
    using assms by (rule roundtrip_squares)
  have k: "color (squares b (from_row m, from_col m)) = current_player b"
    by (rule generated_shapeD(4)[OF sh])
  have ne: "current_player b \<noteq> NONE" by (rule well_formedD(2)[OF wf])
  show "current_player (undo_move (fst (make_move b m)) (snd (make_move b m)))
          = current_player b"
    using ne by (cases "current_player b") (simp_all add: undo_move_fields make_move_fields k)
  show "fullmove_number (undo_move (fst (make_move b m)) (snd (make_move b m)))
          = fullmove_number b"
    using ne by (cases "current_player b") (simp_all add: undo_move_fields make_move_fields k)
qed (simp_all add: undo_move_fields snd_make_move)


subsection \<open>Make keeps a position well-formed\<close>

lemma records_exclusive:
  "records_destination b m \<Longrightarrow> records_en_passant b m \<Longrightarrow> False"
  by (auto simp: records_destination_def records_en_passant_def)

lemma make_move_squares_plain:
  assumes sh: "generated_shape b m" and rec: "records_destination b m"
  shows "squares (fst (make_move b m)) =
      (squares b)((to_row m, to_col m) :=
          \<lparr>piece = (if promotion m \<noteq> EMPTY then promotion m
                     else piece (squares b (from_row m, from_col m))),
           color = color (squares b (from_row m, from_col m))\<rparr>,
        (from_row m, from_col m) := empty_square)"
proof -
  define p where "p = piece (squares b (from_row m, from_col m))"
  define k where "k = color (squares b (from_row m, from_col m))"
  define m' where "m' = take_snapshot b m"
  note shD = generated_shapeD[OF sh, folded p_def k_def]
  have nocastle: "\<not> (p = KING \<and> \<bar>to_col m - from_col m\<bar> = 2)"
    using shD(7) by auto
  have cap: "captured_piece (previous_state m) = piece (squares b (to_row m, to_col m))"
    using rec by (simp add: records_destination_def)
  have b1: "squares (castling_rook_move b m' p k) = squares b"
    using nocastle by (simp add: castling_rook_move_squares m'_def)
  have noep: "\<not> is_en_passant_capture (castling_rook_move b m' p k) m' (p = PAWN)"
  proof
    assume "is_en_passant_capture (castling_rook_move b m' p k) m' (p = PAWN)"
    then have "piece (squares (castling_rook_move b m' p k) (to_row m', to_col m')) = EMPTY"
      and "captured_piece (previous_state m') = PAWN"
      unfolding is_en_passant_capture_def by blast+
    with b1 cap show False by (simp add: m'_def)
  qed
  show ?thesis
    unfolding make_move_fields(3) move_the_piece_squares remove_en_passant_pawn_squares
    using noep b1 by (simp add: p_def k_def m'_def)
qed

lemma make_move_squares_en_passant:
  assumes rec: "records_en_passant b m"
  shows "squares (fst (make_move b m)) =
      (squares b)((from_row m, to_col m) := empty_square,
                  (to_row m, to_col m) :=
                     \<lparr>piece = PAWN, color = color (squares b (from_row m, from_col m))\<rparr>,
                  (from_row m, from_col m) := empty_square)"
proof -
  define k where "k = color (squares b (from_row m, from_col m))"
  define m' where "m' = take_snapshot b m"
  from rec have p: "piece (squares b (from_row m, from_col m)) = PAWN"
    and t: "to_row m = en_passant_row b" "to_col m = en_passant_col b"
    and te: "piece (squares b (to_row m, to_col m)) = EMPTY"
    and cp: "captured_piece (previous_state m) = PAWN"
    and promo: "promotion m = EMPTY"
    unfolding records_en_passant_def by blast+
  have b1: "squares (castling_rook_move b m' PAWN k) = squares b"
    by (simp add: castling_rook_move_squares)
  have isep: "is_en_passant_capture (castling_rook_move b m' PAWN k) m' True"
    unfolding is_en_passant_capture_def b1 using t cp te by (simp add: m'_def)
  show ?thesis
    unfolding make_move_fields(3) move_the_piece_squares remove_en_passant_pawn_squares
    using isep b1 promo p by (simp add: k_def m'_def)
qed

lemma make_move_current_player:
  "current_player (fst (make_move b m)) = opponent (color (squares b (from_row m, from_col m)))"
  by (simp add: make_move_fields(1) opponent_def)

lemma opponent_not_NONE [simp]: "opponent k \<noteq> NONE"
  by (simp add: opponent_def)

lemma opponent_opponent: "k \<noteq> NONE \<Longrightarrow> opponent (opponent k) = k"
  by (cases k) (simp_all add: opponent_def)

lemma squares_consistent_make_move:
  assumes wf: "well_formed b" and sh: "generated_shape b m"
  shows "squares_consistent (fst (make_move b m))"
proof -
  note shD = generated_shapeD[OF sh]
  note wfD = well_formedD[OF wf]
  have kne: "color (squares b (from_row m, from_col m)) \<noteq> NONE"
    using shD(4) wfD(2) by simp
  have pne: "(if promotion m \<noteq> EMPTY then promotion m
              else piece (squares b (from_row m, from_col m))) \<noteq> EMPTY"
    using shD(3) by simp
  from shD(8) show ?thesis
  proof
    assume "records_destination b m"
    from make_move_squares_plain[OF sh this] kne pne wfD(1) show ?thesis
      unfolding squares_consistent_def by (auto simp: empty_square_def)
  next
    assume "records_en_passant b m"
    from make_move_squares_en_passant[OF this] kne wfD(1) show ?thesis
      unfolding squares_consistent_def by (auto simp: empty_square_def)
  qed
qed


section \<open>Castling in the 3D generator\<close>

lemma new_move_3d_sel [simp]:
  "from_layer (new_move_3d fl fr fc tl' tr tc p cap) = fl"
  "from_row_3d (new_move_3d fl fr fc tl' tr tc p cap) = fr"
  "from_col_3d (new_move_3d fl fr fc tl' tr tc p cap) = fc"
  "to_layer (new_move_3d fl fr fc tl' tr tc p cap) = tl'"
  "to_row_3d (new_move_3d fl fr fc tl' tr tc p cap) = tr"
  "to_col_3d (new_move_3d fl fr fc tl' tr tc p cap) = tc"
  "promotion_3d (new_move_3d fl fr fc tl' tr tc p cap) = p"
  "is_capture (new_move_3d fl fr fc tl' tr tc p cap) = cap"
  by (simp_all add: new_move_3d_def)

lemma from_3d_new [simp]: "from_3d (new_move_3d fl fr fc tl' tr tc p cap) = (fl, fr, fc)"
  by (simp add: from_3d_def)

lemma pawn_forward_from_3d:
  "m \<in> set (pawn_forward_moves_3d b l r c) \<Longrightarrow> from_3d m = (l, r, c)"
  by (auto simp: pawn_forward_moves_3d_def Let_def split: if_splits)

lemma pawn_capture_from_3d:
  "m \<in> set (pawn_capture_moves_3d b l r c off) \<Longrightarrow> from_3d m = (l, r, c)"
  by (auto simp: pawn_capture_moves_3d_def Let_def split: if_splits)

lemma pawn_inter_layer_from_3d:
  "m \<in> set (pawn_inter_layer_moves_3d b l r c ch) \<Longrightarrow> from_3d m = (l, r, c)"
  by (auto simp: pawn_inter_layer_moves_3d_def Let_def split: if_splits)

lemma pawn_from_3d: "m \<in> set (generate_pawn_moves_3d b l r c) \<Longrightarrow> from_3d m = (l, r, c)"
  by (auto simp: generate_pawn_moves_3d_def
      dest: pawn_forward_from_3d pawn_capture_from_3d pawn_inter_layer_from_3d)

lemma step_from_3d: "m \<in> set (step_move_3d b l r c d) \<Longrightarrow> from_3d m = (l, r, c)"
  by (auto simp: step_move_3d_def Let_def split: if_splits prod.splits)

lemma step_to_col_3d:
  "m \<in> set (step_move_3d b l r c d) \<Longrightarrow> to_col_3d m = c + snd (snd d)"
  by (auto simp: step_move_3d_def Let_def split: if_splits prod.splits)

lemma knight_from_3d: "m \<in> set (generate_knight_moves_3d b l r c) \<Longrightarrow> from_3d m = (l, r, c)"
  by (auto simp: generate_knight_moves_3d_def dest: step_from_3d split: if_splits)

lemma dir_loop_from_3d:
  "m \<in> set (directional_loop_3d b l r c rd cd ld cl cr cc) \<Longrightarrow> from_3d m = (l, r, c)"
proof (induction b l r c rd cd ld cl cr cc rule: directional_loop_3d.induct)
  case (1 board layer row col row_dir col_dir layer_dir current_layer current_row current_col)
  then show ?case
    by (subst (asm) (2) directional_loop_3d.simps) (auto split: if_splits)
qed

lemma directional_from_3d:
  "m \<in> set (generate_directional_moves_3d b l r c rd cd ld) \<Longrightarrow> from_3d m = (l, r, c)"
  unfolding generate_directional_moves_3d_def by (rule dir_loop_from_3d)

lemma bishop_from_3d: "m \<in> set (generate_bishop_moves_3d b l r c) \<Longrightarrow> from_3d m = (l, r, c)"
  by (auto simp: generate_bishop_moves_3d_def dest: directional_from_3d)

lemma rook_from_3d: "m \<in> set (generate_rook_moves_3d b l r c) \<Longrightarrow> from_3d m = (l, r, c)"
  by (auto simp: generate_rook_moves_3d_def dest: directional_from_3d)

lemma queen_from_3d: "m \<in> set (generate_queen_moves_3d b l r c) \<Longrightarrow> from_3d m = (l, r, c)"
  by (auto simp: generate_queen_moves_3d_def dest: bishop_from_3d rook_from_3d)

lemma castling_from_3d: "m \<in> set (castling_moves_3d b l r c) \<Longrightarrow> from_3d m = (l, r, c)"
  by (auto simp: castling_moves_3d_def Let_def split: if_splits)

lemma king_from_3d: "m \<in> set (generate_king_moves_3d b l r c) \<Longrightarrow> from_3d m = (l, r, c)"
  by (auto simp: generate_king_moves_3d_def dest: step_from_3d castling_from_3d)

lemma moves_for_piece_from:
  assumes m: "m \<in> set (generate_moves_for_piece b lrc)"
  shows "from_3d m = lrc"
proof -
  obtain l r c where lrc: "lrc = (l, r, c)" by (cases lrc)
  show ?thesis
  proof (cases "piece_3d (squares_3d b lrc)")
    case EMPTY with m lrc show ?thesis by (simp add: generate_moves_for_piece_def)
  next
    case PAWN with m lrc show ?thesis
      by (auto simp: generate_moves_for_piece_def dest: pawn_from_3d)
  next
    case KNIGHT with m lrc show ?thesis
      by (auto simp: generate_moves_for_piece_def dest: knight_from_3d)
  next
    case BISHOP with m lrc show ?thesis
      by (auto simp: generate_moves_for_piece_def dest: bishop_from_3d)
  next
    case ROOK with m lrc show ?thesis
      by (auto simp: generate_moves_for_piece_def dest: rook_from_3d)
  next
    case QUEEN with m lrc show ?thesis
      by (auto simp: generate_moves_for_piece_def dest: queen_from_3d)
  next
    case KING with m lrc show ?thesis
      by (auto simp: generate_moves_for_piece_def dest: king_from_3d)
  qed
qed

lemma king_step_cols_3d:
  assumes "d \<in> set king_steps_3d" and "m \<in> set (step_move_3d b l r c d)"
  shows "\<bar>to_col_3d m - from_col_3d m\<bar> \<le> 1"
proof -
  from assms(1) have "\<bar>snd (snd d)\<bar> \<le> 1"
    by (auto simp: king_steps_3d_def layer_offsets_def)
  moreover from step_from_3d[OF assms(2)] have "from_col_3d m = c" by (simp add: from_3d_def)
  ultimately show ?thesis using step_to_col_3d[OF assms(2)] by simp
qed

text \<open>The conditions under which the castling block emits its two moves.\<close>

lemma castling_moves_3d_cases:
  assumes m: "m \<in> set (castling_moves_3d b l r c)"
  defines "k \<equiv> color_3d (squares_3d b (l, r, c))"
  defines "opp \<equiv> (if k = P_WHITE then P_BLACK else P_WHITE)"
  defines "home \<equiv> (if k = P_WHITE then 7 else (0::int))"
  shows "l = 0 \<and> r = home \<and> c = 4 \<and> \<not> is_king_in_check_3d b k
     \<and> to_layer m = 0 \<and> to_row_3d m = home
     \<and> ((to_col_3d m = 6
          \<and> (if k = P_WHITE then white_castle_kingside_3d b else black_castle_kingside_3d b)
          \<and> piece_3d (squares_3d b (0, home, 5)) = EMPTY
          \<and> piece_3d (squares_3d b (0, home, 6)) = EMPTY
          \<and> \<not> is_square_attacked_3d b 0 home 5 opp
          \<and> \<not> is_square_attacked_3d b 0 home 6 opp)
        \<or> (to_col_3d m = 2
          \<and> (if k = P_WHITE then white_castle_queenside_3d b else black_castle_queenside_3d b)
          \<and> piece_3d (squares_3d b (0, home, 3)) = EMPTY
          \<and> piece_3d (squares_3d b (0, home, 2)) = EMPTY
          \<and> piece_3d (squares_3d b (0, home, 1)) = EMPTY
          \<and> \<not> is_square_attacked_3d b 0 home 3 opp
          \<and> \<not> is_square_attacked_3d b 0 home 2 opp))"
proof (cases "color_3d (squares_3d b (l, r, c)) = P_WHITE")
  case True
  with m show ?thesis
    unfolding k_def opp_def home_def castling_moves_3d_def Let_def
    by (auto split: if_splits)
next
  case False
  with m show ?thesis
    unfolding k_def opp_def home_def castling_moves_3d_def Let_def
    by (auto split: if_splits)
qed

text \<open>Claim C5. A king move of two columns among the moves that the 3D generator emits
  comes from the castling block: the king (of the side to move) stands on column 4 of
  its home row on layer 0 and lands on the same row and layer, \<open>is_king_in_check\<close> is
  false for its colour, and either it lands on column 6 with the kingside flag set,
  columns 5 and 6 empty and neither attacked by the opponent, or it lands on column 2
  with the queenside flag set, columns 3, 2 and 1 empty and columns 3 and 2 not attacked
  by the opponent. (The 2D generator emits no king move of two columns at all, see
  claim C10.)\<close>

theorem castling_only_when_allowed_3d:
  assumes "m \<in> set (generate_pseudo_legal_moves_3d b)"
    and "piece_3d (squares_3d b (from_layer m, from_row_3d m, from_col_3d m)) = KING"
    and "\<bar>to_col_3d m - from_col_3d m\<bar> = 2"
  shows "color_3d (squares_3d b (from_layer m, from_row_3d m, from_col_3d m)) = current_player_3d b
     \<and> from_layer m = 0 \<and> from_row_3d m = home_row_3d (current_player_3d b) \<and> from_col_3d m = 4
     \<and> to_layer m = 0 \<and> to_row_3d m = home_row_3d (current_player_3d b)
     \<and> \<not> is_king_in_check_3d b (current_player_3d b)
     \<and> ((to_col_3d m = 6
          \<and> castle_kingside_right_3d b (current_player_3d b)
          \<and> piece_3d (squares_3d b (0, home_row_3d (current_player_3d b), 5)) = EMPTY
          \<and> piece_3d (squares_3d b (0, home_row_3d (current_player_3d b), 6)) = EMPTY
          \<and> \<not> is_square_attacked_3d b 0 (home_row_3d (current_player_3d b)) 5
                (opponent_3d (current_player_3d b))
          \<and> \<not> is_square_attacked_3d b 0 (home_row_3d (current_player_3d b)) 6
                (opponent_3d (current_player_3d b)))
        \<or> (to_col_3d m = 2
          \<and> castle_queenside_right_3d b (current_player_3d b)
          \<and> piece_3d (squares_3d b (0, home_row_3d (current_player_3d b), 3)) = EMPTY
          \<and> piece_3d (squares_3d b (0, home_row_3d (current_player_3d b), 2)) = EMPTY
          \<and> piece_3d (squares_3d b (0, home_row_3d (current_player_3d b), 1)) = EMPTY
          \<and> \<not> is_square_attacked_3d b 0 (home_row_3d (current_player_3d b)) 3
                (opponent_3d (current_player_3d b))
          \<and> \<not> is_square_attacked_3d b 0 (home_row_3d (current_player_3d b)) 2
                (opponent_3d (current_player_3d b))))"
proof -
  from assms(1) obtain lrc where col: "color_3d (squares_3d b lrc) = current_player_3d b"
    and gen: "m \<in> set (generate_moves_for_piece b lrc)"
    by (auto simp: generate_pseudo_legal_moves_3d_def split: if_splits)
  from gen have frm: "from_3d m = lrc" by (rule moves_for_piece_from)
  obtain l r c where lrc: "lrc = (l, r, c)" by (cases lrc)
  from frm lrc have sel: "from_layer m = l" "from_row_3d m = r" "from_col_3d m = c"
    by (simp_all add: from_3d_def)
  from assms(2) sel lrc have king: "piece_3d (squares_3d b lrc) = KING" by simp
  with gen lrc have "m \<in> set (generate_king_moves_3d b l r c)"
    by (simp add: generate_moves_for_piece_def)
  then consider d where "d \<in> set king_steps_3d" "m \<in> set (step_move_3d b l r c d)"
    | "m \<in> set (castling_moves_3d b l r c)"
    by (auto simp: generate_king_moves_3d_def)
  then have cast: "m \<in> set (castling_moves_3d b l r c)"
  proof cases
    case 1
    then have "\<bar>to_col_3d m - from_col_3d m\<bar> \<le> 1" by (rule king_step_cols_3d)
    with assms(3) show ?thesis by simp
  next
    case 2
    then show ?thesis .
  qed
  from col lrc have k: "color_3d (squares_3d b (l, r, c)) = current_player_3d b" by simp
  from castling_moves_3d_cases[OF cast] show ?thesis
    unfolding k sel home_row_3d_def opponent_3d_def castle_kingside_right_3d_def
      castle_queenside_right_3d_def
    by simp
qed

theorem castling_only_when_allowed_3d_witness:
  "black_castles_kingside_3d \<in> set (generate_pseudo_legal_moves_3d black_castle_ready_3d)
   \<and> to_col_3d black_castles_kingside_3d = 6
   \<and> castle_kingside_right_3d black_castle_ready_3d P_BLACK
   \<and> \<not> is_king_in_check_3d black_castle_ready_3d P_BLACK
   \<and> \<not> is_square_attacked_3d black_castle_ready_3d 0 0 5 P_WHITE
   \<and> \<not> is_square_attacked_3d black_castle_ready_3d 0 0 6 P_WHITE"
proof -
  have h1: "black_castles_kingside_3d \<in> set (generate_pseudo_legal_moves_3d black_castle_ready_3d)"
    by code_simp
  have h2: "piece_3d (squares_3d black_castle_ready_3d
      (from_layer black_castles_kingside_3d, from_row_3d black_castles_kingside_3d,
       from_col_3d black_castles_kingside_3d)) = KING"
    by code_simp
  have h3: "\<bar>to_col_3d black_castles_kingside_3d - from_col_3d black_castles_kingside_3d\<bar> = 2"
    by code_simp
  have c: "current_player_3d black_castle_ready_3d = P_BLACK"
      "to_col_3d black_castles_kingside_3d = 6"
    by (simp_all add: black_castle_ready_3d_def black_castles_kingside_3d_def)
  from castling_only_when_allowed_3d[OF h1 h2 h3] h1 show ?thesis
    unfolding c by (simp add: home_row_3d_def opponent_3d_def)
qed


section \<open>The 3D engine on concrete positions\<close>

lemma legal_loop_3d_code [code]:
  "legal_loop_3d board player [] = (board, [])"
  "legal_loop_3d board player (m # ms) =
     legal_after_3d (legal_step_3d board player m) player m ms"
  by (simp_all add: legal_after_3d_def legal_keep_3d_def split: prod.splits)

text \<open>Claim C1, 3D program. In \<open>corner_position_3d\<close> the capture of the knight by the king
  is a legal move. After \<open>make_move\<close> and \<open>undo_move\<close> the knight's square is empty and
  the halfmove clock is 0 instead of 100; the undo that the search writes out inline
  restores the knight but not the clock.\<close>

theorem undo_does_not_restore_3d:
  "king_takes_knight_3d \<in> set (snd (generate_legal_moves_3d corner_position_3d))
   \<and> squares_3d corner_position_3d (0, 6, 1) = \<lparr>piece_3d = KNIGHT, color_3d = P_BLACK\<rparr>
   \<and> squares_3d (undo_move_3d (make_move_3d corner_position_3d king_takes_knight_3d)
                   king_takes_knight_3d) (0, 6, 1) = empty_square_3d
   \<and> halfmove_clock_3d corner_position_3d = 100
   \<and> halfmove_clock_3d (undo_move_3d (make_move_3d corner_position_3d king_takes_knight_3d)
                          king_takes_knight_3d) = 0
   \<and> halfmove_clock_3d (inline_undo_3d (make_move_3d corner_position_3d king_takes_knight_3d)
                          king_takes_knight_3d (squares_3d corner_position_3d (0, 6, 1))
                          P_WHITE) = 0"
  by code_simp

theorem undo_does_not_restore_3d_witness:
  "squares_3d (undo_move_3d (make_move_3d corner_position_3d king_takes_knight_3d)
                 king_takes_knight_3d) (0, 6, 1)
     \<noteq> squares_3d corner_position_3d (0, 6, 1)
   \<and> halfmove_clock_3d (undo_move_3d (make_move_3d corner_position_3d king_takes_knight_3d)
                          king_takes_knight_3d)
     \<noteq> halfmove_clock_3d corner_position_3d"
  using undo_does_not_restore_3d by (simp add: empty_square_3d_def)

text \<open>Claim C2, 3D program. In \<open>en_passant_check_3d\<close> the en-passant capture is a
  pseudo-legal move of White, and in the position obtained by applying it the white king
  is not attacked; the legal-move generator does not return it. (The candidate before it
  clears the en-passant target of the shared board, which stays cleared, so the capture
  is simulated as a plain diagonal step that leaves the checking pawn on the board.)\<close>

theorem legal_filter_drops_en_passant_3d:
  "en_passant_capture_3d \<in> set (generate_pseudo_legal_moves_3d en_passant_check_3d)
   \<and> \<not> is_king_in_check_3d (make_move_3d en_passant_check_3d en_passant_capture_3d) P_WHITE
   \<and> en_passant_capture_3d \<notin> set (snd (generate_legal_moves_3d en_passant_check_3d))"
  by code_simp

theorem legal_filter_drops_en_passant_3d_witness:
  "set (snd (generate_legal_moves_3d en_passant_check_3d))
     \<noteq> {m \<in> set (generate_pseudo_legal_moves_3d en_passant_check_3d).
          \<not> is_king_in_check_3d (make_move_3d en_passant_check_3d m)
               (current_player_3d en_passant_check_3d)}"
proof -
  have "current_player_3d en_passant_check_3d = P_WHITE"
    by (simp add: en_passant_check_3d_def)
  with legal_filter_drops_en_passant_3d show ?thesis by auto
qed

text \<open>Claim C3, 3D program. The board that the caller of \<open>generate_legal_moves\<close> holds
  after the call differs from the board before it: in \<open>corner_position_3d\<close> the halfmove
  clock goes from 100 to 5.\<close>

theorem legal_generation_changes_board_3d:
  "halfmove_clock_3d corner_position_3d = 100
   \<and> halfmove_clock_3d (fst (generate_legal_moves_3d corner_position_3d)) = 5"
  by code_simp

theorem legal_generation_changes_board_3d_witness:
  "fst (generate_legal_moves_3d corner_position_3d) \<noteq> corner_position_3d"
proof
  assume "fst (generate_legal_moves_3d corner_position_3d) = corner_position_3d"
  then have "halfmove_clock_3d (fst (generate_legal_moves_3d corner_position_3d))
             = halfmove_clock_3d corner_position_3d" by simp
  with legal_generation_changes_board_3d have "(100::int) = 5" by (elim conjE) simp
  then show False by simp
qed

text \<open>Claim C7, 3D program. In \<open>corner_position_3d\<close> the halfmove clock is 100 and
  \<open>is_game_over\<close> returns false.\<close>

theorem fifty_move_rule_ignored_3d:
  "halfmove_clock_3d corner_position_3d \<ge> 100 \<and> \<not> snd (is_game_over_3d corner_position_3d)"
  by code_simp

theorem fifty_move_rule_ignored_3d_witness:
  "\<not> (snd (is_game_over_3d corner_position_3d)
       \<longleftrightarrow> snd (generate_legal_moves_3d corner_position_3d) = []
           \<or> halfmove_clock_3d corner_position_3d \<ge> 100)"
  using fifty_move_rule_ignored_3d by simp

lemma minimax_3d_game_over:
  assumes "depth \<noteq> 0" and "snd (is_game_over_3d b)"
  shows "minimax_3d (Suc n) b depth alpha beta maximizing =
           Some (fst (is_game_over_3d b), evaluate_board_3d (fst (is_game_over_3d b)))"
  using assms by (cases "is_game_over_3d b") simp

lemma mate_3d_facts:
  "snd (generate_legal_moves_3d mate_3d) = []"
  "is_king_in_check_3d mate_3d (current_player_3d mate_3d)"
  "snd (is_game_over_3d mate_3d)"
  "evaluate_board_3d (fst (is_game_over_3d mate_3d)) = - 4600"
  by code_simp+

text \<open>Claim C6, 3D program. In \<open>mate_3d\<close> the side to move has no legal move and is in
  check. \<open>minimax\<close> called there with depth 1 returns the static evaluation, \<open>-4600\<close>,
  whatever the bounds and the maximizing flag: the test \<open>is_game_over\<close> in its first
  line returns the evaluation before the checkmate branch below it can run.\<close>

theorem minimax_3d_checkmate_returns_evaluation:
  "snd (generate_legal_moves_3d mate_3d) = []
   \<and> is_king_in_check_3d mate_3d (current_player_3d mate_3d)
   \<and> map_option snd (minimax_3d (Suc n) mate_3d 1 alpha beta maximizing) = Some (- 4600)"
  using minimax_3d_game_over[of 1 mate_3d n alpha beta maximizing] mate_3d_facts
  by simp

theorem minimax_3d_checkmate_returns_evaluation_witness:
  "map_option snd (minimax_3d 2 mate_3d 1 (- INFINITY) INFINITY True) = Some (- 4600)
   \<and> - 4600 \<noteq> - (INFINITY + 1) \<and> - 4600 \<noteq> - INFINITY"
  using minimax_3d_checkmate_returns_evaluation[of 1 "- INFINITY" INFINITY True]
  by (simp add: INFINITY_def numeral_2_eq_2)


end
